theory Spec2Isabelle
  imports Main
begin

section \<open>Values of the argument bag\<close>

text \<open>
  A tool call carries \<open>arguments\<close>, taken here to be present: a mapping from argument
  names to values, as the spec's data model has it. The registry's input schemas declare
  every argument a string, except \<open>keywords\<close> of the keyword research tool, a list of
  strings. A handler receives the bag as \<open>args: any\<close> and nothing checks a value
  against its schema, so a handler may meet either kind of value under any name; the
  model keeps these two kinds. A key that is not supplied reads as \<open>undefined\<close>, here
  \<open>None\<close>. Strings are byte strings (UTF-8).
\<close>

datatype jsval = Str string | StrList "string list"

type_synonym args = "string \<rightharpoonup> jsval"

text \<open>JavaScript truthiness: \<open>undefined\<close> and the empty string are falsy, an array is truthy.\<close>

definition truthy :: "jsval option \<Rightarrow> bool" where
  "truthy v = (case v of None \<Rightarrow> False | Some (Str s) \<Rightarrow> s \<noteq> [] | Some (StrList xs) \<Rightarrow> True)"

text \<open>A destructuring default, \<open>const { country = 'in' } = args\<close>: used for \<open>undefined\<close> only.\<close>

definition withDefault :: "jsval option \<Rightarrow> jsval \<Rightarrow> jsval" where
  "withDefault v d = (case v of None \<Rightarrow> d | Some x \<Rightarrow> x)"

text \<open>The operator \<open>a || b\<close>.\<close>

definition orElse :: "jsval option \<Rightarrow> jsval option \<Rightarrow> jsval option" where
  "orElse a b = (if truthy a then a else b)"

text \<open>\<open>Array.prototype.join\<close> and the conversion \<open>String(v)\<close> of a defined value.\<close>

fun join :: "string \<Rightarrow> string list \<Rightarrow> string" where
  "join sep [] = []"
| "join sep [x] = x"
| "join sep (x # y # ys) = x @ sep @ join sep (y # ys)"

definition toString :: "jsval \<Rightarrow> string" where
  "toString v = (case v of Str s \<Rightarrow> s | StrList xs \<Rightarrow> join '','' xs)"

section \<open>Numbers as decimal strings\<close>

fun digits10 :: "nat \<Rightarrow> string" where
  "digits10 n =
     (if n < 10 then [''0123456789'' ! n]
      else digits10 (n div 10) @ [''0123456789'' ! (n mod 10)])"

declare digits10.simps [simp del]

definition String_of_int :: "int \<Rightarrow> string" where
  "String_of_int i = (if i < 0 then ''-'' @ digits10 (nat (- i)) else digits10 (nat i))"

text \<open>\<open>s.padStart(n, c)\<close> for a one-character pad string.\<close>

definition padStart :: "nat \<Rightarrow> char \<Rightarrow> string \<Rightarrow> string" where
  "padStart n c s = replicate (n - length s) c @ s"

section \<open>The clock: time values and local dates\<close>

text \<open>
  A \<open>Date\<close> holds a time value, the milliseconds since 1 January 1970 UTC. Its getters
  and \<open>setDate\<close> work in the local time of the process, which the language reaches
  through \<open>LocalTZA(t, isUTC)\<close>: the offset of the zone, in milliseconds, at the UTC
  time \<open>t\<close> or, when \<open>isUTC\<close> is false, at the local time \<open>t\<close> (for a local time
  that a forward change of the zone skips, the offset before the change). The zone is the
  process's own and is kept here as a field beside the time value. The functions below
  follow the language specification, by their names there; time values are taken to be in
  the range of \<open>TimeClip\<close>.
\<close>

record CivilDate =
  civilYear :: int
  civilMonth :: int
  civilDay :: int

definition msPerDay :: int where
  "msPerDay = 86400000"

definition Day :: "int \<Rightarrow> int" where
  "Day t = t div msPerDay"

definition TimeWithinDay :: "int \<Rightarrow> int" where
  "TimeWithinDay t = t mod msPerDay"

definition isLeapYear :: "int \<Rightarrow> bool" where
  "isLeapYear y = ((y mod 4 = 0 \<and> y mod 100 \<noteq> 0) \<or> y mod 400 = 0)"

text \<open>The days of a month, months counted from 0.\<close>

definition daysInMonth :: "int \<Rightarrow> int \<Rightarrow> int" where
  "daysInMonth y m =
     (if m = 1 then (if isLeapYear y then 29 else 28)
      else if m = 3 \<or> m = 5 \<or> m = 8 \<or> m = 10 then 30
      else 31)"

text \<open>
  A year, a month and a day of the month that may lie outside the month, brought to the
  date it denotes: day 0 is the last day of the month before, day 32 of a month of 31 days
  is the first day of the next.
\<close>

function normaliseDay :: "int \<Rightarrow> int \<Rightarrow> int \<Rightarrow> CivilDate" where
  "normaliseDay y m d =
     (if d < 1 then
        (if m = 0 then normaliseDay (y - 1) 11 (d + daysInMonth (y - 1) 11)
         else normaliseDay y (m - 1) (d + daysInMonth y (m - 1)))
      else if daysInMonth y m < d then
        (if m = 11 then normaliseDay (y + 1) 0 (d - daysInMonth y m)
         else normaliseDay y (m + 1) (d - daysInMonth y m))
      else \<lparr>civilYear = y, civilMonth = m, civilDay = d\<rparr>)"
  by pat_completeness auto
termination
proof (relation "measures [\<lambda>(y, m, d). if d < 1 then 1 else 0,
                           \<lambda>(y, m, d). if d < 1 then nat (1 - d) else nat d]")
  show "wf (measures [\<lambda>(y, m, d). if d < 1 then 1 else 0,
                      \<lambda>(y, m, d). if d < (1::int) then nat (1 - d) else nat d]
             :: (int \<times> int \<times> int) rel)"
    by simp
qed (auto simp: daysInMonth_def)

declare normaliseDay.simps [simp del]

text \<open>
  The calendar date of a day number: day 0 is 1 January 1970. \<open>YearFromTime\<close>,
  \<open>MonthFromTime\<close> (0 to 11) and \<open>DateFromTime\<close> (1 to 31) read it.
\<close>

definition dateFromDay :: "int \<Rightarrow> CivilDate" where
  "dateFromDay n = normaliseDay 1970 0 (n + 1)"

definition YearFromTime :: "int \<Rightarrow> int" where
  "YearFromTime t = civilYear (dateFromDay (Day t))"

definition MonthFromTime :: "int \<Rightarrow> int" where
  "MonthFromTime t = civilMonth (dateFromDay (Day t))"

definition DateFromTime :: "int \<Rightarrow> int" where
  "DateFromTime t = civilDay (dateFromDay (Day t))"

text \<open>
  \<open>MakeDay\<close>: the day number of the first day of the month, plus the day of the month
  less one, whatever integer that is.
\<close>

definition DayFromYear :: "int \<Rightarrow> int" where
  "DayFromYear y =
     365 * (y - 1970) + (y - 1969) div 4 - (y - 1901) div 100 + (y - 1601) div 400"

fun daysBeforeMonth :: "int \<Rightarrow> nat \<Rightarrow> int" where
  "daysBeforeMonth y 0 = 0"
| "daysBeforeMonth y (Suc m) = daysBeforeMonth y m + daysInMonth y (int m)"

definition MakeDay :: "int \<Rightarrow> int \<Rightarrow> int \<Rightarrow> int" where
  "MakeDay year month date =
     (let ym = year + month div 12; mn = month mod 12
      in DayFromYear ym + daysBeforeMonth ym (nat mn) + date - 1)"

definition MakeDate :: "int \<Rightarrow> int \<Rightarrow> int" where
  "MakeDate day time = day * msPerDay + time"

record Date =
  DateValue :: int
  LocalTZA :: "int \<Rightarrow> bool \<Rightarrow> int"

definition LocalTime :: "Date \<Rightarrow> int" where
  "LocalTime date = DateValue date + LocalTZA date (DateValue date) True"

definition getFullYear :: "Date \<Rightarrow> int" where
  "getFullYear date = YearFromTime (LocalTime date)"

definition getMonth :: "Date \<Rightarrow> int" where
  "getMonth date = MonthFromTime (LocalTime date)"

definition getDate :: "Date \<Rightarrow> int" where
  "getDate date = DateFromTime (LocalTime date)"

text \<open>
  \<open>setDate(dt)\<close>: the local time of the date, its day of the month replaced, taken back
  to UTC with the offset of the zone at that local time.
\<close>

definition setDate :: "Date \<Rightarrow> int \<Rightarrow> Date" where
  "setDate date dt =
     (let t = LocalTime date;
          newDate = MakeDate (MakeDay (YearFromTime t) (MonthFromTime t) dt) (TimeWithinDay t);
          u = newDate - LocalTZA date newDate False
      in date\<lparr>DateValue := u\<rparr>)"

record DateRange =
  start_date :: string
  end_date :: string

definition formatDate :: "Date \<Rightarrow> string" where
  "formatDate date =
     (let year = getFullYear date;
          month = padStart 2 (CHR ''0'') (String_of_int (getMonth date + 1));
          day = padStart 2 (CHR ''0'') (String_of_int (getDate date))
      in String_of_int year @ ''-'' @ month @ ''-'' @ day)"

text \<open>\<open>today\<close> is \<open>new Date()\<close>, the reading of the clock at the call.\<close>

definition getDefaultDateRange :: "Date \<Rightarrow> DateRange" where
  "getDefaultDateRange today =
     (let thirtyDaysAgo = setDate today (getDate today - 30)
      in \<lparr>start_date = formatDate thirtyDaysAgo, end_date = formatDate today\<rparr>)"

section \<open>Query strings\<close>

text \<open>
  A \<open>URLSearchParams\<close> object is its list of name-value pairs. \<open>append\<close> converts the
  value to a string; \<open>toString\<close> is the form-urlencoded serialisation: letters, digits
  and \<open>*-._\<close> stay, a space becomes \<open>+\<close>, every other byte becomes \<open>%XX\<close>.
\<close>

type_synonym URLSearchParams = "(string \<times> string) list"

definition formSafe :: "char \<Rightarrow> bool" where
  "formSafe c =
     (c \<in> set ''*-._0123456789ABCDEFGHIJKLMNOPQRSTUVWXYZabcdefghijklmnopqrstuvwxyz'')"

definition hexDigit :: "nat \<Rightarrow> char" where
  "hexDigit n = ''0123456789ABCDEF'' ! n"

definition encodeByte :: "char \<Rightarrow> string" where
  "encodeByte c =
     (if formSafe c then [c]
      else if c = CHR '' '' then ''+''
      else [CHR ''%'', hexDigit (of_char c div 16), hexDigit (of_char c mod 16)])"

definition urlencode :: "string \<Rightarrow> string" where
  "urlencode s = concat (map encodeByte s)"

definition URLSearchParams_toString :: "URLSearchParams \<Rightarrow> string" where
  "URLSearchParams_toString qp = join ''&'' (map (\<lambda>(k, v). urlencode k @ ''='' @ urlencode v) qp)"

definition URLSearchParams_append :: "URLSearchParams \<Rightarrow> string \<Rightarrow> jsval \<Rightarrow> URLSearchParams" where
  "URLSearchParams_append qp key value = qp @ [(key, toString value)]"

text \<open>
  The loop of \<open>buildQueryString\<close> over \<open>Object.entries(params)\<close>, the entries in
  insertion order; \<open>qp\<close> is the \<open>URLSearchParams\<close> built so far.
\<close>

fun appendEntries :: "(string \<times> jsval option) list \<Rightarrow> URLSearchParams \<Rightarrow> URLSearchParams" where
  "appendEntries [] qp = qp"
| "appendEntries ((key, value) # rest) qp =
     (case value of
        None \<Rightarrow> appendEntries rest qp
      | Some v \<Rightarrow>
          if v \<noteq> Str '''' then appendEntries rest (URLSearchParams_append qp key v)
          else appendEntries rest qp)"

definition buildQueryString :: "(string \<times> jsval option) list \<Rightarrow> string" where
  "buildQueryString params =
     (let queryString = URLSearchParams_toString (appendEntries params [])
      in if queryString \<noteq> '''' then ''?'' @ queryString else '''')"

section \<open>Outbound calls\<close>

text \<open>
  A thrown value is an \<open>Error\<close> object with its message, or some other value, kept
  through \<open>String(value)\<close>. \<open>messageOf\<close> is the expression
  \<open>error instanceof Error ? error.message : String(error)\<close> of every catch block.
\<close>

datatype thrown = Error string | Thrown string

definition messageOf :: "thrown \<Rightarrow> string" where
  "messageOf error = (case error of Error message \<Rightarrow> message | Thrown s \<Rightarrow> s)"

text \<open>
  A parsed JSON document is kept by its rendering under \<open>JSON.stringify(result, null, 2)\<close>,
  the only thing a handler does with it.
\<close>

datatype json = Json string

definition JSON_stringify :: "json \<Rightarrow> string" where
  "JSON_stringify result = (case result of Json s \<Rightarrow> s)"

text \<open>
  An outbound request, as \<open>fetch\<close> receives it. The headers are in the order of the
  object literal. The body of a POST is kept as the object handed to \<open>JSON.stringify\<close>,
  its properties in order.
\<close>

record request =
  url :: string
  "method" :: string
  headers :: "(string \<times> string) list"
  body :: "(string \<times> jsval) list option"

text \<open>
  The upstream's answer: reading the body as text or as JSON may itself throw.
  \<open>fetch\<close> either rejects or resolves with a response, whatever its status.
\<close>

record response =
  status :: nat
  statusText :: string
  responseText :: "thrown + string"
  responseJson :: "thrown + json"

definition ok :: "response \<Rightarrow> bool" where
  "ok r = (200 \<le> status r \<and> status r \<le> 299)"

datatype outcome = Rejected thrown | Resolved response

type_synonym fetch = "request \<Rightarrow> outcome"

text \<open>The two constructor arguments of \<open>BaseHandler\<close>.\<close>

record config =
  apiUrl :: string
  apiToken :: string

text \<open>
  An asynchronous method returns the outbound requests it issued, in order, with what it
  threw (\<open>Inl\<close>) or returned (\<open>Inr\<close>).
\<close>

definition fetchApi ::
  "config \<Rightarrow> fetch \<Rightarrow> string \<Rightarrow> (string \<times> jsval option) list \<Rightarrow> request list \<times> (thrown + json)" where
  "fetchApi cfg net endpoint queryParams =
     (let req = \<lparr>url = apiUrl cfg @ endpoint @ buildQueryString queryParams,
                 method = ''GET'',
                 headers =
                   [(''Accept'', ''application/json''), (''Content-Type'', ''application/json'')]
                   @ (if apiToken cfg \<noteq> '''' then [(''Authorization'', ''Token '' @ apiToken cfg)]
                      else []),
                 body = None\<rparr>;
          catch = (\<lambda>error. case error of
                      Error message \<Rightarrow> Inl (Error message)
                    | Thrown s \<Rightarrow> Inl (Error (''Failed to fetch from API: '' @ s)))
      in ([req],
          case net req of
            Rejected error \<Rightarrow> catch error
          | Resolved response \<Rightarrow>
              if \<not> ok response then
                (case responseText response of
                   Inl error \<Rightarrow> catch error
                 | Inr errorText \<Rightarrow>
                     catch (Error (''API request failed ('' @ digits10 (status response)
                                   @ ''): '' @ errorText)))
              else (case responseJson response of
                      Inl error \<Rightarrow> catch error
                    | Inr result \<Rightarrow> Inr result)))"

definition fetchApiPost ::
  "config \<Rightarrow> fetch \<Rightarrow> string \<Rightarrow> (string \<times> jsval) list \<Rightarrow> request list \<times> (thrown + json)" where
  "fetchApiPost cfg net endpoint requestBody =
     (let req = \<lparr>url = apiUrl cfg @ endpoint,
                 method = ''POST'',
                 headers =
                   [(''Accept'', ''application/json''), (''Content-Type'', ''application/json''),
                    (''Authorization'', ''Token '' @ apiToken cfg)],
                 body = Some requestBody\<rparr>
      in ([req],
          case net req of
            Rejected error \<Rightarrow> Inl error
          | Resolved response \<Rightarrow>
              if \<not> ok response then
                Inl (Error (''API request failed: '' @ digits10 (status response)
                            @ '' '' @ statusText response))
              else responseJson response))"

section \<open>Tool handlers\<close>

record content_block =
  "type" :: string
  "text" :: string

record envelope =
  content :: "content_block list"

definition textEnvelope :: "string \<Rightarrow> envelope" where
  "textEnvelope s = \<lparr>content = [\<lparr>type = ''text'', text = s\<rparr>]\<rparr>"

type_synonym handler = "config \<Rightarrow> fetch \<Rightarrow> Date \<Rightarrow> args \<Rightarrow> request list \<times> (thrown + envelope)"

text \<open>
  The \<open>try\<close> block that ends every handler: the upstream's JSON goes into one text
  block; whatever the call threw is thrown again as an \<open>Error\<close> under the handler's
  own prefix.
\<close>

definition wrapResult ::
  "string \<Rightarrow> request list \<times> (thrown + json) \<Rightarrow> request list \<times> (thrown + envelope)" where
  "wrapResult prefix r =
     (case r of
        (calls, Inr result) \<Rightarrow> (calls, Inr (textEnvelope (JSON_stringify result)))
      | (calls, Inl error) \<Rightarrow> (calls, Inl (Error (prefix @ messageOf error))))"

text \<open>
  Each handler is given in two parts: the \<open>queryParams\<close> object it builds from the
  destructured arguments and the date defaults, and \<open>handle\<close>, the required-field
  checks followed by the call.
\<close>

definition AppleMetadataHandler_queryParams :: "Date \<Rightarrow> args \<Rightarrow> (string \<times> jsval option) list" where
  "AppleMetadataHandler_queryParams today args =
     (let dateRange = getDefaultDateRange today
      in [(''app'', args ''app''),
          (''data'', Some (withDefault (args ''data'') (Str ''title''))),
          (''country'', Some (withDefault (args ''country'') (Str ''in''))),
          (''language'', Some (withDefault (args ''language'') (Str ''en''))),
          (''start_date'', orElse (args ''start_date'') (Some (Str (start_date dateRange)))),
          (''end_date'', orElse (args ''end_date'') (Some (Str (end_date dateRange))))])"

definition AppleMetadataHandler_handle :: handler where
  "AppleMetadataHandler_handle cfg net today args =
     (if \<not> truthy (args ''app'') then ([], Inl (Error ''App ID is required''))
      else wrapResult ''Failed to fetch Apple metadata: ''
             (fetchApi cfg net ''/metadata/apple/'' (AppleMetadataHandler_queryParams today args)))"

definition AppleRankHandler_queryParams :: "Date \<Rightarrow> args \<Rightarrow> (string \<times> jsval option) list" where
  "AppleRankHandler_queryParams today args =
     (let dateRange = getDefaultDateRange today
      in [(''app'', args ''app''),
          (''country'', Some (withDefault (args ''country'') (Str ''in''))),
          (''start_date'', orElse (args ''start_date'') (Some (Str (start_date dateRange)))),
          (''end_date'', orElse (args ''end_date'') (Some (Str (end_date dateRange))))])"

definition AppleRankHandler_handle :: handler where
  "AppleRankHandler_handle cfg net today args =
     (if \<not> truthy (args ''app'') then ([], Inl (Error ''App ID is required''))
      else wrapResult ''Failed to fetch Apple category ranks: ''
             (fetchApi cfg net ''/category/rank/apple/'' (AppleRankHandler_queryParams today args)))"

definition AndroidMetadataHandler_queryParams :: "Date \<Rightarrow> args \<Rightarrow> (string \<times> jsval option) list" where
  "AndroidMetadataHandler_queryParams today args =
     (let dateRange = getDefaultDateRange today
      in [(''app'', args ''app''),
          (''data'', Some (withDefault (args ''data'') (Str ''title''))),
          (''country'', Some (withDefault (args ''country'') (Str ''in''))),
          (''language'', Some (withDefault (args ''language'') (Str ''en''))),
          (''start_date'', orElse (args ''start_date'') (Some (Str (start_date dateRange)))),
          (''end_date'', orElse (args ''end_date'') (Some (Str (end_date dateRange))))])"

definition AndroidMetadataHandler_handle :: handler where
  "AndroidMetadataHandler_handle cfg net today args =
     (if \<not> truthy (args ''app'') then ([], Inl (Error ''App package name is required''))
      else wrapResult ''Failed to fetch Android metadata: ''
             (fetchApi cfg net ''/metadata/android/'' (AndroidMetadataHandler_queryParams today args)))"

definition AndroidRankHandler_queryParams :: "Date \<Rightarrow> args \<Rightarrow> (string \<times> jsval option) list" where
  "AndroidRankHandler_queryParams today args =
     (let dateRange = getDefaultDateRange today
      in [(''app'', args ''app''),
          (''country'', Some (withDefault (args ''country'') (Str ''in''))),
          (''start_date'', orElse (args ''start_date'') (Some (Str (start_date dateRange)))),
          (''end_date'', orElse (args ''end_date'') (Some (Str (end_date dateRange))))])"

definition AndroidRankHandler_handle :: handler where
  "AndroidRankHandler_handle cfg net today args =
     (if \<not> truthy (args ''app'') then ([], Inl (Error ''App package name is required''))
      else wrapResult ''Failed to fetch Android category ranks: ''
             (fetchApi cfg net ''/category/rank/android/'' (AndroidRankHandler_queryParams today args)))"

definition AndroidReviewsHandler_queryParams :: "Date \<Rightarrow> args \<Rightarrow> (string \<times> jsval option) list" where
  "AndroidReviewsHandler_queryParams today args =
     (let dateRange = getDefaultDateRange today
      in [(''app'', args ''app''),
          (''language'', Some (withDefault (args ''language'') (Str ''en''))),
          (''start_date'', orElse (args ''start_date'') (Some (Str (start_date dateRange)))),
          (''end_date'', orElse (args ''end_date'') (Some (Str (end_date dateRange))))])"

definition AndroidReviewsHandler_handle :: handler where
  "AndroidReviewsHandler_handle cfg net today args =
     (if \<not> truthy (args ''app'') then ([], Inl (Error ''App package name is required''))
      else wrapResult ''Failed to fetch Android reviews: ''
             (fetchApi cfg net ''/reviews/android/'' (AndroidReviewsHandler_queryParams today args)))"

text \<open>
  The keyword-rank handler starts from the four fixed entries and then assigns either
  \<open>date\<close> or the pair \<open>start_date\<close>, \<open>end_date\<close>, which land after them.
\<close>

definition AndroidKeywordRankHandler_queryParams :: "Date \<Rightarrow> args \<Rightarrow> (string \<times> jsval option) list" where
  "AndroidKeywordRankHandler_queryParams today args =
     (let dateRange = getDefaultDateRange today;
          queryParams =
            [(''app'', args ''app''),
             (''keywords'', args ''keywords''),
             (''country'', Some (withDefault (args ''country'') (Str ''in''))),
             (''language'', Some (withDefault (args ''language'') (Str ''en'')))]
      in if truthy (args ''date'') then queryParams @ [(''date'', args ''date'')]
         else queryParams @
           [(''start_date'', orElse (args ''start_date'') (Some (Str (start_date dateRange)))),
            (''end_date'', orElse (args ''end_date'') (Some (Str (end_date dateRange))))])"

definition AndroidKeywordRankHandler_handle :: handler where
  "AndroidKeywordRankHandler_handle cfg net today args =
     (if \<not> truthy (args ''app'') then ([], Inl (Error ''App package name is required''))
      else if \<not> truthy (args ''keywords'') then ([], Inl (Error ''Keywords are required''))
      else wrapResult ''Failed to fetch Android keyword ranks: ''
             (fetchApi cfg net ''/ranks/android/'' (AndroidKeywordRankHandler_queryParams today args)))"

definition UserJobsHandler_handle :: handler where
  "UserJobsHandler_handle cfg net today args =
     wrapResult ''Failed to fetch user jobs: '' (fetchApi cfg net ''/userjobs/'' [])"

definition KeywordResearchHandler_handle :: handler where
  "KeywordResearchHandler_handle cfg net today args =
     (let country = withDefault (args ''country'') (Str ''in'');
          language = withDefault (args ''language'') (Str ''en'');
          platform = withDefault (args ''platform'') (Str ''android'')
      in case args ''keywords'' of
           Some (StrList (k # ks)) \<Rightarrow>
             if platform \<notin> set [Str ''android'', Str ''ios''] then
               ([], Inl (Error ''Platform must be either \"android\" or \"ios\"''))
             else
               wrapResult ''Failed to fetch keyword research data: ''
                 (fetchApiPost cfg net (''/keyword-research/'' @ toString platform @ ''/'')
                    [(''keywords'', StrList (k # ks)), (''country'', country),
                     (''language'', language), (''platform'', platform)])
         | _ \<Rightarrow> ([], Inl (Error ''Keywords array is required and must not be empty'')))"

text \<open>
  Modelled from the spec: \<open>handlers/appleReviews.ts\<close> is not among the sources. The
  tool table gives \<open>apple_reviews\<close> the required field \<open>app\<close>, the optional
  \<open>country\<close> (default \<open>in\<close>) and the date range with its 30-day default. The
  defaults are filled as the handlers among the sources fill them.
\<close>

definition AppleReviewsHandler_queryParams :: "Date \<Rightarrow> args \<Rightarrow> (string \<times> jsval option) list" where
  "AppleReviewsHandler_queryParams today args =
     (let dateRange = getDefaultDateRange today
      in [(''app'', args ''app''),
          (''country'', Some (withDefault (args ''country'') (Str ''in''))),
          (''start_date'', orElse (args ''start_date'') (Some (Str (start_date dateRange)))),
          (''end_date'', orElse (args ''end_date'') (Some (Str (end_date dateRange))))])"

text \<open>
  Modelled from the spec: the \<open>handle\<close> method of the same missing file. The required
  field is checked before any outbound call, the request is a GET to \<open>/reviews/apple/\<close>,
  and the result is shaped as every handler shapes it. The check is the test of the
  handlers among the sources (\<open>!app\<close>), and the wording of the two messages follows
  the Apple handlers among them.
\<close>

definition AppleReviewsHandler_handle :: handler where
  "AppleReviewsHandler_handle cfg net today args =
     (if \<not> truthy (args ''app'') then ([], Inl (Error ''App ID is required''))
      else wrapResult ''Failed to fetch Apple reviews: ''
             (fetchApi cfg net ''/reviews/apple/'' (AppleReviewsHandler_queryParams today args)))"

text \<open>
  Modelled from the spec: \<open>handlers/appleKeywordRank.ts\<close> is not among the sources.
  The tool table gives \<open>apple_keyword_rank\<close> the required fields \<open>app\<close> and
  \<open>keywords\<close>, the optional \<open>country\<close> (default \<open>in\<close>) and \<open>language\<close> (default
  \<open>en\<close>), and either a single \<open>date\<close> or the date range, under the same
  date-versus-range rule as the Android keyword-rank tool: \<open>date\<close> wins. The rule is
  therefore written as the Android handler among the sources writes it.
\<close>

definition AppleKeywordRankHandler_queryParams :: "Date \<Rightarrow> args \<Rightarrow> (string \<times> jsval option) list" where
  "AppleKeywordRankHandler_queryParams today args =
     (let dateRange = getDefaultDateRange today;
          queryParams =
            [(''app'', args ''app''),
             (''keywords'', args ''keywords''),
             (''country'', Some (withDefault (args ''country'') (Str ''in''))),
             (''language'', Some (withDefault (args ''language'') (Str ''en'')))]
      in if truthy (args ''date'') then queryParams @ [(''date'', args ''date'')]
         else queryParams @
           [(''start_date'', orElse (args ''start_date'') (Some (Str (start_date dateRange)))),
            (''end_date'', orElse (args ''end_date'') (Some (Str (end_date dateRange))))])"

text \<open>
  Modelled from the spec: the \<open>handle\<close> method of the same missing file. Both required
  fields are checked before any outbound call, the request is a GET to \<open>/ranks/apple/\<close>,
  and the result is shaped as every handler shapes it. The checks are the tests of the
  Android handler among the sources, and the wording of the messages follows the handlers
  among them.
\<close>

definition AppleKeywordRankHandler_handle :: handler where
  "AppleKeywordRankHandler_handle cfg net today args =
     (if \<not> truthy (args ''app'') then ([], Inl (Error ''App ID is required''))
      else if \<not> truthy (args ''keywords'') then ([], Inl (Error ''Keywords are required''))
      else wrapResult ''Failed to fetch Apple keyword ranks: ''
             (fetchApi cfg net ''/ranks/apple/'' (AppleKeywordRankHandler_queryParams today args)))"

section \<open>Registry and dispatcher\<close>

text \<open>The names of the \<open>tools\<close> array, in its order.\<close>

definition tools :: "string list" where
  "tools =
     [''appvector_apple_metadata'', ''appvector_apple_rank'', ''appvector_android_metadata'',
      ''appvector_android_rank'', ''appvector_keyword_research'', ''appvector_apple_reviews'',
      ''appvector_android_reviews'', ''appvector_apple_keyword_rank'',
      ''appvector_android_keyword_rank'', ''appvector_user_jobs'']"

text \<open>The \<open>switch\<close> inside the \<open>try\<close> block of the call-tool request handler.\<close>

definition switchTool :: "string \<Rightarrow> handler" where
  "switchTool name cfg net today args =
     (if name = ''appvector_apple_metadata'' then AppleMetadataHandler_handle cfg net today args
      else if name = ''appvector_apple_rank'' then AppleRankHandler_handle cfg net today args
      else if name = ''appvector_android_metadata'' then AndroidMetadataHandler_handle cfg net today args
      else if name = ''appvector_android_rank'' then AndroidRankHandler_handle cfg net today args
      else if name = ''appvector_keyword_research'' then KeywordResearchHandler_handle cfg net today args
      else if name = ''appvector_apple_reviews'' then AppleReviewsHandler_handle cfg net today args
      else if name = ''appvector_android_reviews'' then AndroidReviewsHandler_handle cfg net today args
      else if name = ''appvector_apple_keyword_rank'' then AppleKeywordRankHandler_handle cfg net today args
      else if name = ''appvector_android_keyword_rank'' then AndroidKeywordRankHandler_handle cfg net today args
      else if name = ''appvector_user_jobs'' then UserJobsHandler_handle cfg net today args
      else ([], Inl (Error (''Unknown tool: '' @ name))))"

text \<open>
  The call-tool request handler, the spec's \<open>dispatch\<close>: the \<open>switch\<close> under a
  \<open>catch\<close> that turns whatever was thrown into a text block.
\<close>

definition dispatch :: "string \<Rightarrow> handler" where
  "dispatch name cfg net today args =
     (case switchTool name cfg net today args of
        (calls, Inr result) \<Rightarrow> (calls, Inr result)
      | (calls, Inl error) \<Rightarrow> (calls, Inr (textEnvelope (''Error: '' @ messageOf error))))"

section \<open>Tables over the tools, and a sample environment\<close>

text \<open>The \<open>case\<close> labels of the \<open>switch\<close>, each with the handler it calls.\<close>

definition handlerTable :: "(string \<times> handler) list" where
  "handlerTable =
     [(''appvector_apple_metadata'', AppleMetadataHandler_handle),
      (''appvector_apple_rank'', AppleRankHandler_handle),
      (''appvector_android_metadata'', AndroidMetadataHandler_handle),
      (''appvector_android_rank'', AndroidRankHandler_handle),
      (''appvector_keyword_research'', KeywordResearchHandler_handle),
      (''appvector_apple_reviews'', AppleReviewsHandler_handle),
      (''appvector_android_reviews'', AndroidReviewsHandler_handle),
      (''appvector_apple_keyword_rank'', AppleKeywordRankHandler_handle),
      (''appvector_android_keyword_rank'', AndroidKeywordRankHandler_handle),
      (''appvector_user_jobs'', UserJobsHandler_handle)]"

text \<open>
  The tools whose input schema lists \<open>app\<close> under \<open>required\<close>: all but keyword
  research and user jobs.
\<close>

definition appRequiredTools :: "string list" where
  "appRequiredTools =
     [''appvector_apple_metadata'', ''appvector_apple_rank'', ''appvector_android_metadata'',
      ''appvector_android_rank'', ''appvector_apple_reviews'', ''appvector_android_reviews'',
      ''appvector_apple_keyword_rank'', ''appvector_android_keyword_rank'']"

text \<open>The Apple tools among them; their handlers word the missing field as an app ID.\<close>

definition appleTools :: "string list" where
  "appleTools =
     [''appvector_apple_metadata'', ''appvector_apple_rank'', ''appvector_apple_reviews'',
      ''appvector_apple_keyword_rank'']"

text \<open>The two keyword-rank tools.\<close>

definition keywordRankTools :: "string list" where
  "keywordRankTools = [''appvector_apple_keyword_rank'', ''appvector_android_keyword_rank'']"

text \<open>The same eight tools take a date range; each with the \<open>queryParams\<close> it builds.\<close>

definition dateRangeTable :: "(string \<times> (Date \<Rightarrow> args \<Rightarrow> (string \<times> jsval option) list)) list" where
  "dateRangeTable =
     [(''appvector_apple_metadata'', AppleMetadataHandler_queryParams),
      (''appvector_apple_rank'', AppleRankHandler_queryParams),
      (''appvector_android_metadata'', AndroidMetadataHandler_queryParams),
      (''appvector_android_rank'', AndroidRankHandler_queryParams),
      (''appvector_apple_reviews'', AppleReviewsHandler_queryParams),
      (''appvector_android_reviews'', AndroidReviewsHandler_queryParams),
      (''appvector_apple_keyword_rank'', AppleKeywordRankHandler_queryParams),
      (''appvector_android_keyword_rank'', AndroidKeywordRankHandler_queryParams)]"

text \<open>
  The configuration of \<open>index.ts\<close>: the fixed base URL, and the token of the
  environment, which is the empty string when \<open>APPVECTOR_TOKEN\<close> is not set.
\<close>

definition API_URL :: string where
  "API_URL = ''https://appvector.io/external-apis/api''"

definition tokenConfig :: config where
  "tokenConfig = \<lparr>apiUrl = API_URL, apiToken = ''s3cr3t''\<rparr>"

definition noTokenConfig :: config where
  "noTokenConfig = \<lparr>apiUrl = API_URL, apiToken = ''''\<rparr>"

text \<open>
  A sample upstream for the concrete instances below: it answers every GET with status
  200 and an empty JSON array, and every POST with status 403.
\<close>

definition upstream :: fetch where
  "upstream req =
     (if method req = ''GET'' then
        Resolved \<lparr>status = 200, statusText = ''OK'',
                  responseText = Inr ''[]'', responseJson = Inr (Json ''[]'')\<rparr>
      else
        Resolved \<lparr>status = 403, statusText = ''Forbidden'',
                  responseText = Inr ''denied'',
                  responseJson = Inl (Error ''Unexpected token d'')\<rparr>)"

text \<open>A network that is down: \<open>fetch\<close> rejects with a \<open>TypeError\<close>, an \<open>Error\<close>.\<close>

definition offline :: fetch where
  "offline req = Rejected (Error ''fetch failed'')"

text \<open>
  The zone UTC, the clock of the spec's example (noon of 26 September 2025, UTC), and the
  zone of Apia around its change of date line: at 10:00 UTC of 30 December 2011 the
  offset went from 10 hours behind UTC to 14 hours ahead, so that 29 December was followed
  locally by 31 December. \<open>apiaNoon\<close> is local noon of 29 January 2012 there.
\<close>

definition utc :: "int \<Rightarrow> bool \<Rightarrow> int" where
  "utc t isUTC = 0"

definition now :: Date where
  "now = \<lparr>DateValue = 20357 * 86400000 + 43200000, LocalTZA = utc\<rparr>"



section \<open>Counting days\<close>

text \<open>
  A calendar date is valid when its month is 0 to 11 and its day lies within the month;
  \<open>dayNumber\<close> is its position in the proleptic Gregorian calendar, counted from
  1 January 1970. A wall-clock time exists in a zone when reading it back from UTC gives
  the offset it was taken to UTC with; a time that a forward change of the zone skips
  does not. \<open>twoDigits\<close> is a number below 100 written with exactly two decimal digits.
\<close>

definition validDate :: "CivilDate \<Rightarrow> bool" where
  "validDate c =
     (0 \<le> civilMonth c \<and> civilMonth c \<le> 11 \<and>
      1 \<le> civilDay c \<and> civilDay c \<le> daysInMonth (civilYear c) (civilMonth c))"

definition dayNumber :: "CivilDate \<Rightarrow> int" where
  "dayNumber c =
     DayFromYear (civilYear c) + daysBeforeMonth (civilYear c) (nat (civilMonth c)) + civilDay c - 1"

definition wallClockExists :: "(int \<Rightarrow> bool \<Rightarrow> int) \<Rightarrow> int \<Rightarrow> bool" where
  "wallClockExists zone t = (zone (t - zone t False) True = zone t False)"

definition twoDigits :: "int \<Rightarrow> string" where
  "twoDigits n = [''0123456789'' ! (nat n div 10), ''0123456789'' ! (nat n mod 10)]"

section \<open>Reading a query string\<close>







section \<open>The dispatcher\<close>

lemma switchTool_cases:
  "switchTool ''appvector_apple_metadata'' = AppleMetadataHandler_handle"
  "switchTool ''appvector_apple_rank'' = AppleRankHandler_handle"
  "switchTool ''appvector_android_metadata'' = AndroidMetadataHandler_handle"
  "switchTool ''appvector_android_rank'' = AndroidRankHandler_handle"
  "switchTool ''appvector_keyword_research'' = KeywordResearchHandler_handle"
  "switchTool ''appvector_apple_reviews'' = AppleReviewsHandler_handle"
  "switchTool ''appvector_android_reviews'' = AndroidReviewsHandler_handle"
  "switchTool ''appvector_apple_keyword_rank'' = AppleKeywordRankHandler_handle"
  "switchTool ''appvector_android_keyword_rank'' = AndroidKeywordRankHandler_handle"
  "switchTool ''appvector_user_jobs'' = UserJobsHandler_handle"
  by (simp_all add: switchTool_def fun_eq_iff)

lemma switchTool_table: "(name, h) \<in> set handlerTable \<Longrightarrow> switchTool name = h"
  unfolding handlerTable_def by (auto simp: switchTool_cases)

lemma switchTool_unknown:
  "name \<notin> set tools \<Longrightarrow>
   switchTool name cfg net today args = ([], Inl (Error (''Unknown tool: '' @ name)))"
  by (simp add: tools_def switchTool_def)

lemma handlerTable_names: "map fst handlerTable = tools"
  by (simp add: handlerTable_def tools_def)

lemma dispatch_catch:
  "dispatch name cfg net today args =
     (fst (switchTool name cfg net today args),
      Inr (case snd (switchTool name cfg net today args) of
             Inr result \<Rightarrow> result
           | Inl error \<Rightarrow> textEnvelope (''Error: '' @ messageOf error)))"
  by (simp add: dispatch_def split: prod.splits sum.splits)

lemma falsy_app_throws:
  "\<not> truthy (args ''app'') \<Longrightarrow>
   AppleMetadataHandler_handle cfg net today args = ([], Inl (Error ''App ID is required''))"
  "\<not> truthy (args ''app'') \<Longrightarrow>
   AppleRankHandler_handle cfg net today args = ([], Inl (Error ''App ID is required''))"
  "\<not> truthy (args ''app'') \<Longrightarrow>
   AndroidMetadataHandler_handle cfg net today args = ([], Inl (Error ''App package name is required''))"
  "\<not> truthy (args ''app'') \<Longrightarrow>
   AndroidRankHandler_handle cfg net today args = ([], Inl (Error ''App package name is required''))"
  "\<not> truthy (args ''app'') \<Longrightarrow>
   AppleReviewsHandler_handle cfg net today args = ([], Inl (Error ''App ID is required''))"
  "\<not> truthy (args ''app'') \<Longrightarrow>
   AndroidReviewsHandler_handle cfg net today args = ([], Inl (Error ''App package name is required''))"
  "\<not> truthy (args ''app'') \<Longrightarrow>
   AppleKeywordRankHandler_handle cfg net today args = ([], Inl (Error ''App ID is required''))"
  "\<not> truthy (args ''app'') \<Longrightarrow>
   AndroidKeywordRankHandler_handle cfg net today args = ([], Inl (Error ''App package name is required''))"
  by (simp_all add: AppleMetadataHandler_handle_def AppleRankHandler_handle_def
      AndroidMetadataHandler_handle_def AndroidRankHandler_handle_def
      AppleReviewsHandler_handle_def AndroidReviewsHandler_handle_def
      AppleKeywordRankHandler_handle_def AndroidKeywordRankHandler_handle_def)

lemma appRequiredTools_cases:
  assumes "name \<in> set appRequiredTools"
  obtains "name = ''appvector_apple_metadata''" | "name = ''appvector_apple_rank''"
    | "name = ''appvector_android_metadata''" | "name = ''appvector_android_rank''"
    | "name = ''appvector_apple_reviews''" | "name = ''appvector_android_reviews''"
    | "name = ''appvector_apple_keyword_rank''" | "name = ''appvector_android_keyword_rank''"
  using assms unfolding appRequiredTools_def by fastforce

lemma switchTool_falsy_app:
  assumes "name \<in> set appRequiredTools" and "\<not> truthy (args ''app'')"
  shows "switchTool name cfg net today args =
           ([], Inl (Error (if name \<in> set appleTools then ''App ID is required''
                            else ''App package name is required'')))"
  using assms(1)
  by (cases rule: appRequiredTools_cases)
     (simp_all add: switchTool_cases falsy_app_throws assms(2) appleTools_def)

text \<open>
  Claim C1, as amended. The \<open>default\<close> branch of the \<open>switch\<close> throws inside the
  \<open>try\<close> block, so the \<open>catch\<close> that serves the known tools serves it too: for every
  name that is not one of the ten registered names, the dispatcher issues no outbound
  call and returns a response envelope whose single text block reads
  \<open>Error: Unknown tool: <name>\<close>. No raw fault leaves the dispatcher.
\<close>

theorem unknown_tool_text_envelope:
  assumes "name \<notin> set tools"
  shows "dispatch name cfg net today args =
           ([], Inr \<lparr>content = [\<lparr>type = ''text'', text = ''Error: Unknown tool: '' @ name\<rparr>]\<rparr>)"
  using assms by (simp add: dispatch_catch switchTool_unknown messageOf_def textEnvelope_def)

theorem unknown_tool_text_envelope_witness:
  "''no_such_tool'' \<notin> set tools \<and>
   dispatch ''no_such_tool'' tokenConfig upstream now Map.empty =
     ([], Inr \<lparr>content = [\<lparr>type = ''text'', text = ''Error: Unknown tool: no_such_tool''\<rparr>]\<rparr>)"
proof -
  have h: "''no_such_tool'' \<notin> set tools"
    by (simp add: tools_def)
  show ?thesis
    using h unknown_tool_text_envelope [OF h, of tokenConfig upstream now Map.empty] by simp
qed

text \<open>
  Claim C1 as the spec states it asks for a raw fault (\<open>Inl\<close>) on an unknown name. At
  \<open>no_such_tool\<close> with an empty argument bag the dispatcher returns an envelope
  (\<open>Inr\<close>) instead.
\<close>

theorem unknown_tool_raw_fault_counterexample:
  "''no_such_tool'' \<notin> set tools \<and>
   \<not> isl (snd (dispatch ''no_such_tool'' tokenConfig upstream now Map.empty)) \<and>
   snd (dispatch ''no_such_tool'' tokenConfig upstream now Map.empty) =
     Inr \<lparr>content = [\<lparr>type = ''text'', text = ''Error: Unknown tool: no_such_tool''\<rparr>]\<rparr>"
  by (simp add: tools_def dispatch_def switchTool_def messageOf_def textEnvelope_def)

text \<open>Two calls evaluated against the sample upstream.\<close>

lemma user_jobs_sample:
  "UserJobsHandler_handle tokenConfig upstream now Map.empty =
     ([\<lparr>url = ''https://appvector.io/external-apis/api/userjobs/'', method = ''GET'',
        headers = [(''Accept'', ''application/json''), (''Content-Type'', ''application/json''),
                   (''Authorization'', ''Token s3cr3t'')],
        body = None\<rparr>],
      Inr \<lparr>content = [\<lparr>type = ''text'', text = ''[]''\<rparr>]\<rparr>)"
  by (simp add: UserJobsHandler_handle_def wrapResult_def fetchApi_def upstream_def ok_def
      buildQueryString_def URLSearchParams_toString_def JSON_stringify_def textEnvelope_def
      tokenConfig_def API_URL_def)

lemma user_jobs_offline:
  "snd (UserJobsHandler_handle tokenConfig offline now Map.empty) =
     Inl (Error ''Failed to fetch user jobs: fetch failed'')"
  by (simp add: UserJobsHandler_handle_def wrapResult_def fetchApi_def offline_def messageOf_def)

lemma keyword_research_sample:
  "KeywordResearchHandler_handle tokenConfig upstream now [''keywords'' \<mapsto> StrList [''fitness'']] =
     ([\<lparr>url = ''https://appvector.io/external-apis/api/keyword-research/android/'',
        method = ''POST'',
        headers = [(''Accept'', ''application/json''), (''Content-Type'', ''application/json''),
                   (''Authorization'', ''Token s3cr3t'')],
        body = Some [(''keywords'', StrList [''fitness'']), (''country'', Str ''in''),
                     (''language'', Str ''en''), (''platform'', Str ''android'')]\<rparr>],
      Inl (Error ''Failed to fetch keyword research data: API request failed: 403 Forbidden''))"
  by (simp add: KeywordResearchHandler_handle_def withDefault_def toString_def wrapResult_def
      fetchApiPost_def upstream_def ok_def messageOf_def tokenConfig_def API_URL_def
      digits10.simps)

text \<open>
  Claim C2. For every registered tool name the dispatcher calls the handler that the
  \<open>switch\<close> gives the name, issues exactly the handler's outbound calls, and always
  returns an envelope (\<open>Inr\<close>): the handler's own envelope unchanged when it returns
  one, and otherwise, whatever the handler threw, the single text block \<open>Error: \<close>
  followed by the failure's message.
\<close>

theorem dispatch_known_tool_enveloped:
  assumes "name \<in> set tools"
  shows "\<exists>h. map_of handlerTable name = Some h \<and>
           dispatch name cfg net today args =
             (fst (h cfg net today args),
              Inr (case snd (h cfg net today args) of
                     Inr result \<Rightarrow> result
                   | Inl error \<Rightarrow>
                       \<lparr>content = [\<lparr>type = ''text'', text = ''Error: '' @ messageOf error\<rparr>]\<rparr>))"
proof -
  from assms have "name \<in> fst ` set handlerTable"
    by (simp only: handlerTable_names [symmetric] set_map)
  then obtain h where h: "map_of handlerTable name = Some h"
    by (meson map_of_eq_None_iff not_Some_eq)
  then have "(name, h) \<in> set handlerTable"
    by (rule map_of_SomeD)
  then have "switchTool name = h"
    by (rule switchTool_table)
  with h show ?thesis
    by (simp add: dispatch_catch textEnvelope_def split: sum.split)
qed

text \<open>
  Four instances: a required-field failure of the Android reviews tool, an upstream
  status 403 met by the keyword research tool, a successful call of the user jobs tool,
  whose envelope comes back as the handler made it, and the same call with the network
  down.
\<close>

theorem dispatch_known_tool_enveloped_witness:
  "''appvector_android_reviews'' \<in> set tools \<and>
   dispatch ''appvector_android_reviews'' tokenConfig upstream now Map.empty =
     ([], Inr \<lparr>content = [\<lparr>type = ''text'', text = ''Error: App package name is required''\<rparr>]\<rparr>) \<and>
   ''appvector_keyword_research'' \<in> set tools \<and>
   snd (dispatch ''appvector_keyword_research'' tokenConfig upstream now
          [''keywords'' \<mapsto> StrList [''fitness'']]) =
     Inr \<lparr>content = [\<lparr>type = ''text'',
            text = ''Error: Failed to fetch keyword research data: API request failed: 403 Forbidden''\<rparr>]\<rparr> \<and>
   ''appvector_user_jobs'' \<in> set tools \<and>
   snd (dispatch ''appvector_user_jobs'' tokenConfig upstream now Map.empty) =
     Inr \<lparr>content = [\<lparr>type = ''text'', text = ''[]''\<rparr>]\<rparr> \<and>
   snd (dispatch ''appvector_user_jobs'' tokenConfig offline now Map.empty) =
     Inr \<lparr>content = [\<lparr>type = ''text'',
            text = ''Error: Failed to fetch user jobs: fetch failed''\<rparr>]\<rparr>"
proof -
  have h1: "''appvector_android_reviews'' \<in> set tools"
    and h2: "''appvector_keyword_research'' \<in> set tools"
    and h3: "''appvector_user_jobs'' \<in> set tools"
    by (simp_all add: tools_def)
  have t: "map_of handlerTable ''appvector_android_reviews'' = Some AndroidReviewsHandler_handle"
    "map_of handlerTable ''appvector_keyword_research'' = Some KeywordResearchHandler_handle"
    "map_of handlerTable ''appvector_user_jobs'' = Some UserJobsHandler_handle"
    by (simp_all add: handlerTable_def)
  from dispatch_known_tool_enveloped [OF h1, of tokenConfig upstream now Map.empty] t(1)
  have a: "dispatch ''appvector_android_reviews'' tokenConfig upstream now Map.empty =
     ([], Inr \<lparr>content = [\<lparr>type = ''text'', text = ''Error: App package name is required''\<rparr>]\<rparr>)"
    by (auto simp: falsy_app_throws truthy_def messageOf_def)
  from dispatch_known_tool_enveloped
    [OF h2, of tokenConfig upstream now "[''keywords'' \<mapsto> StrList [''fitness'']]"] t(2)
  have b: "snd (dispatch ''appvector_keyword_research'' tokenConfig upstream now
          [''keywords'' \<mapsto> StrList [''fitness'']]) =
     Inr \<lparr>content = [\<lparr>type = ''text'',
            text = ''Error: Failed to fetch keyword research data: API request failed: 403 Forbidden''\<rparr>]\<rparr>"
    by (auto simp: keyword_research_sample messageOf_def)
  from dispatch_known_tool_enveloped [OF h3, of tokenConfig upstream now Map.empty] t(3)
  have c: "snd (dispatch ''appvector_user_jobs'' tokenConfig upstream now Map.empty) =
     Inr \<lparr>content = [\<lparr>type = ''text'', text = ''[]''\<rparr>]\<rparr>"
    by (auto simp: user_jobs_sample)
  from dispatch_known_tool_enveloped [OF h3, of tokenConfig offline now Map.empty] t(3)
  have d: "snd (dispatch ''appvector_user_jobs'' tokenConfig offline now Map.empty) =
     Inr \<lparr>content = [\<lparr>type = ''text'',
            text = ''Error: Failed to fetch user jobs: fetch failed''\<rparr>]\<rparr>"
    by (auto simp: user_jobs_offline messageOf_def)
  from h1 h2 h3 a b c d show ?thesis by blast
qed

text \<open>
  Claim C8. For each of the eight tools that require \<open>app\<close>, a call whose argument
  bag has no \<open>app\<close> issues no outbound call and returns the text envelope
  \<open>Error: App ID is required\<close> (the Apple tools) or
  \<open>Error: App package name is required\<close> (the Android tools): the message names the
  missing app identifier.
\<close>

theorem missing_app_error_envelope:
  assumes "name \<in> set appRequiredTools" and "args ''app'' = None"
  shows "dispatch name cfg net today args =
           ([], Inr \<lparr>content = [\<lparr>type = ''text'',
                                 text = ''Error: '' @ (if name \<in> set appleTools then ''App ID is required''
                                                       else ''App package name is required'')\<rparr>]\<rparr>)"
proof -
  from assms(2) have "\<not> truthy (args ''app'')"
    by (simp add: truthy_def)
  with assms(1) have "switchTool name cfg net today args =
      ([], Inl (Error (if name \<in> set appleTools then ''App ID is required''
                       else ''App package name is required'')))"
    by (rule switchTool_falsy_app)
  then show ?thesis
    by (simp add: dispatch_catch messageOf_def textEnvelope_def)
qed

theorem missing_app_error_envelope_witness:
  "''appvector_apple_rank'' \<in> set appRequiredTools \<and>
   [''country'' \<mapsto> Str ''us''] ''app'' = None \<and>
   dispatch ''appvector_apple_rank'' tokenConfig upstream now [''country'' \<mapsto> Str ''us''] =
     ([], Inr \<lparr>content = [\<lparr>type = ''text'', text = ''Error: App ID is required''\<rparr>]\<rparr>)"
proof -
  have h: "''appvector_apple_rank'' \<in> set appRequiredTools"
    by (simp add: appRequiredTools_def)
  have a: "[''country'' \<mapsto> Str ''us''] ''app'' = None"
    by simp
  show ?thesis
    using h a
      missing_app_error_envelope
        [where args = "[''country'' \<mapsto> Str ''us'']", OF h a, of tokenConfig upstream now]
    by (simp add: appleTools_def)
qed

text \<open>
  Claim C9. The required-field check is \<open>!app\<close>, a test of falsiness: for each of the
  eight tools that require \<open>app\<close>, a call with \<open>app\<close> the empty string throws the
  very error that a call without \<open>app\<close> throws, before any outbound call, and the
  dispatcher answers both calls alike.
\<close>

theorem empty_app_same_as_missing:
  assumes "name \<in> set appRequiredTools"
  shows "switchTool name cfg net today (args(''app'' \<mapsto> Str '''')) =
           ([], Inl (Error (if name \<in> set appleTools then ''App ID is required''
                            else ''App package name is required''))) \<and>
         switchTool name cfg net today (args(''app'' := None)) =
           ([], Inl (Error (if name \<in> set appleTools then ''App ID is required''
                            else ''App package name is required''))) \<and>
         dispatch name cfg net today (args(''app'' \<mapsto> Str '''')) =
           dispatch name cfg net today (args(''app'' := None))"
proof -
  have a: "\<not> truthy ((args(''app'' \<mapsto> Str '''')) ''app'')"
    by (simp add: truthy_def)
  have b: "\<not> truthy ((args(''app'' := None)) ''app'')"
    by (simp add: truthy_def)
  show ?thesis
    unfolding dispatch_catch
      switchTool_falsy_app [where args = "args(''app'' \<mapsto> Str '''')", OF assms a]
      switchTool_falsy_app [where args = "args(''app'' := None)", OF assms b]
    by simp
qed

theorem empty_app_same_as_missing_witness:
  "''appvector_android_reviews'' \<in> set appRequiredTools \<and>
   switchTool ''appvector_android_reviews'' tokenConfig upstream now
       [''language'' \<mapsto> Str ''en'', ''app'' \<mapsto> Str ''''] =
     ([], Inl (Error ''App package name is required'')) \<and>
   dispatch ''appvector_android_reviews'' tokenConfig upstream now
       [''language'' \<mapsto> Str ''en'', ''app'' \<mapsto> Str ''''] =
     dispatch ''appvector_android_reviews'' tokenConfig upstream now
       ([''language'' \<mapsto> Str ''en''](''app'' := None))"
proof -
  have h: "''appvector_android_reviews'' \<in> set appRequiredTools"
    by (simp add: appRequiredTools_def)
  show ?thesis
    using h
      empty_app_same_as_missing
        [OF h, of tokenConfig upstream now "[''language'' \<mapsto> Str ''en'']"]
    by (simp add: appleTools_def)
qed

section \<open>Outbound requests and the keyword research tool\<close>

lemma fetchApi_calls:
  "fst (fetchApi cfg net endpoint queryParams) =
     [\<lparr>url = apiUrl cfg @ endpoint @ buildQueryString queryParams,
       method = ''GET'',
       headers = [(''Accept'', ''application/json''), (''Content-Type'', ''application/json'')]
                 @ (if apiToken cfg \<noteq> '''' then [(''Authorization'', ''Token '' @ apiToken cfg)]
                    else []),
       body = None\<rparr>]"
  by (simp add: fetchApi_def Let_def)

lemma fetchApiPost_calls:
  "fst (fetchApiPost cfg net endpoint requestBody) =
     [\<lparr>url = apiUrl cfg @ endpoint,
       method = ''POST'',
       headers = [(''Accept'', ''application/json''), (''Content-Type'', ''application/json''),
                  (''Authorization'', ''Token '' @ apiToken cfg)],
       body = Some requestBody\<rparr>]"
  by (simp add: fetchApiPost_def Let_def)

lemma fst_wrapResult: "fst (wrapResult prefix r) = fst r"
  by (simp add: wrapResult_def split: prod.splits sum.splits)

lemma fst_dispatch: "fst (dispatch name cfg net today args) = fst (switchTool name cfg net today args)"
  by (simp add: dispatch_catch)

text \<open>
  Claim C3, where the code departs from it. \<open>fetchApi\<close> adds the
  \<open>Authorization\<close> header under \<open>if (this.apiToken)\<close>; \<open>fetchApiPost\<close> writes it
  into the header literal with no such test. With no token configured, the POST of the
  keyword research tool therefore carries \<open>Authorization: Token \<close> (an empty token),
  while the GET of the user jobs tool, under the same configuration, carries no
  \<open>Authorization\<close> header.
\<close>

theorem post_sends_authorization_without_token:
  "fst (dispatch ''appvector_keyword_research'' noTokenConfig net today
          [''keywords'' \<mapsto> StrList [''fitness'']]) =
     [\<lparr>url = ''https://appvector.io/external-apis/api/keyword-research/android/'',
       method = ''POST'',
       headers = [(''Accept'', ''application/json''), (''Content-Type'', ''application/json''),
                  (''Authorization'', ''Token '')],
       body = Some [(''keywords'', StrList [''fitness'']), (''country'', Str ''in''),
                    (''language'', Str ''en''), (''platform'', Str ''android'')]\<rparr>] \<and>
   fst (dispatch ''appvector_user_jobs'' noTokenConfig net today Map.empty) =
     [\<lparr>url = ''https://appvector.io/external-apis/api/userjobs/'',
       method = ''GET'',
       headers = [(''Accept'', ''application/json''), (''Content-Type'', ''application/json'')],
       body = None\<rparr>]"
  by (simp add: fst_dispatch switchTool_cases KeywordResearchHandler_handle_def
      UserJobsHandler_handle_def fst_wrapResult fetchApiPost_calls fetchApi_calls
      withDefault_def toString_def noTokenConfig_def API_URL_def buildQueryString_def
      URLSearchParams_toString_def)

text \<open>What the GET path does, for every configuration: the header is there exactly when
  the token is not the empty string.\<close>

lemma fetchApi_authorization:
  "(''Authorization'' \<in> fst ` set (concat (map headers (fst (fetchApi cfg net endpoint queryParams)))))
     = (apiToken cfg \<noteq> '''')"
  by (auto simp: fetchApi_calls)

text \<open>
  Claim C7. For the keyword research tool: a call whose \<open>platform\<close> is present and
  is neither \<open>android\<close> nor \<open>ios\<close> throws one of the handler's two validation errors
  and issues no outbound call; a call without \<open>platform\<close> (and with a non-empty list of
  keywords) goes out as one POST to \<open>/keyword-research/android/\<close> with
  \<open>platform\<close> \<open>android\<close> in its body; a call whose \<open>keywords\<close> is missing, is a
  string instead of a list, or is the empty list throws the keywords error and issues no
  outbound call.
\<close>

theorem keyword_research_validation:
  "(\<forall>p. args ''platform'' = Some p \<and> p \<noteq> Str ''android'' \<and> p \<noteq> Str ''ios'' \<longrightarrow>
        KeywordResearchHandler_handle cfg net today args =
          ([], Inl (Error ''Keywords array is required and must not be empty'')) \<or>
        KeywordResearchHandler_handle cfg net today args =
          ([], Inl (Error ''Platform must be either \"android\" or \"ios\"''))) \<and>
   (\<forall>k ks. args ''platform'' = None \<and> args ''keywords'' = Some (StrList (k # ks)) \<longrightarrow>
        fst (KeywordResearchHandler_handle cfg net today args) =
          [\<lparr>url = apiUrl cfg @ ''/keyword-research/android/'',
            method = ''POST'',
            headers = [(''Accept'', ''application/json''), (''Content-Type'', ''application/json''),
                       (''Authorization'', ''Token '' @ apiToken cfg)],
            body = Some [(''keywords'', StrList (k # ks)),
                         (''country'', withDefault (args ''country'') (Str ''in'')),
                         (''language'', withDefault (args ''language'') (Str ''en'')),
                         (''platform'', Str ''android'')]\<rparr>]) \<and>
   (args ''keywords'' = None \<or> (\<exists>s. args ''keywords'' = Some (Str s)) \<or>
      args ''keywords'' = Some (StrList []) \<longrightarrow>
        KeywordResearchHandler_handle cfg net today args =
          ([], Inl (Error ''Keywords array is required and must not be empty'')))"
  by (auto simp: KeywordResearchHandler_handle_def withDefault_def fst_wrapResult
      fetchApiPost_calls toString_def
      split: option.splits jsval.splits list.splits)

theorem keyword_research_validation_witness:
  "KeywordResearchHandler_handle tokenConfig upstream now
       [''keywords'' \<mapsto> StrList [''fitness''], ''platform'' \<mapsto> Str ''desktop''] =
     ([], Inl (Error ''Platform must be either \"android\" or \"ios\"'')) \<and>
   fst (KeywordResearchHandler_handle tokenConfig upstream now
       [''keywords'' \<mapsto> StrList [''fitness'']]) =
     [\<lparr>url = ''https://appvector.io/external-apis/api/keyword-research/android/'',
       method = ''POST'',
       headers = [(''Accept'', ''application/json''), (''Content-Type'', ''application/json''),
                  (''Authorization'', ''Token s3cr3t'')],
       body = Some [(''keywords'', StrList [''fitness'']), (''country'', Str ''in''),
                    (''language'', Str ''en''), (''platform'', Str ''android'')]\<rparr>] \<and>
   KeywordResearchHandler_handle tokenConfig upstream now [''keywords'' \<mapsto> Str ''fitness''] =
     ([], Inl (Error ''Keywords array is required and must not be empty''))"
proof -
  note w1 = keyword_research_validation
    [of "[''keywords'' \<mapsto> StrList [''fitness''], ''platform'' \<mapsto> Str ''desktop'']"
        tokenConfig upstream now]
  note w2 = keyword_research_validation
    [of "[''keywords'' \<mapsto> StrList [''fitness'']]" tokenConfig upstream now]
  note w3 = keyword_research_validation
    [of "[''keywords'' \<mapsto> Str ''fitness'']" tokenConfig upstream now]
  have "KeywordResearchHandler_handle tokenConfig upstream now
       [''keywords'' \<mapsto> StrList [''fitness''], ''platform'' \<mapsto> Str ''desktop''] \<noteq>
     ([], Inl (Error ''Keywords array is required and must not be empty''))"
    by (simp add: KeywordResearchHandler_handle_def withDefault_def)
  with w1 have a: "KeywordResearchHandler_handle tokenConfig upstream now
       [''keywords'' \<mapsto> StrList [''fitness''], ''platform'' \<mapsto> Str ''desktop''] =
     ([], Inl (Error ''Platform must be either \"android\" or \"ios\"''))"
    by simp
  from w2 have b: "fst (KeywordResearchHandler_handle tokenConfig upstream now
       [''keywords'' \<mapsto> StrList [''fitness'']]) =
     [\<lparr>url = ''https://appvector.io/external-apis/api/keyword-research/android/'',
       method = ''POST'',
       headers = [(''Accept'', ''application/json''), (''Content-Type'', ''application/json''),
                  (''Authorization'', ''Token s3cr3t'')],
       body = Some [(''keywords'', StrList [''fitness'']), (''country'', Str ''in''),
                    (''language'', Str ''en''), (''platform'', Str ''android'')]\<rparr>]"
    by (simp add: tokenConfig_def API_URL_def withDefault_def)
  from w3 have c: "KeywordResearchHandler_handle tokenConfig upstream now
       [''keywords'' \<mapsto> Str ''fitness''] =
     ([], Inl (Error ''Keywords array is required and must not be empty''))"
    by simp
  from a b c show ?thesis by blast
qed

section \<open>The default date range\<close>

lemma daysBeforeMonth_12:
  "daysBeforeMonth y 12 = (if isLeapYear y then 366 else 365)"
  by (simp add: eval_nat_numeral daysInMonth_def)

lemma div_step:
  fixes y k :: int
  assumes "0 < k"
  shows "y div k = (y - 1) div k + (if y mod k = 0 then 1 else 0)"
proof (cases "y mod k = 0")
  case True
  with mult_div_mod_eq [of k y] have "y = k * (y div k)"
    by simp
  then have "y - 1 = k * (y div k - 1) + (k - 1)"
    by (simp add: algebra_simps)
  then have "(y - 1) div k = y div k - 1"
    by (rule int_div_pos_eq) (use assms in simp_all)
  with True show ?thesis by simp
next
  case False
  have r: "0 \<le> y mod k" "y mod k < k"
    using assms by simp_all
  have "y - 1 = k * (y div k) + (y mod k - 1)"
    by simp
  then have "(y - 1) div k = y div k"
    by (rule int_div_pos_eq) (use r False in simp_all)
  with False show ?thesis by simp
qed

lemma DayFromYear_next:
  "DayFromYear (y + 1) = DayFromYear y + (if isLeapYear y then 366 else 365)"
proof -
  have "400 dvd y \<Longrightarrow> 100 dvd y"
    by (rule dvd_trans [of 100 400]) simp_all
  then have a: "y mod 400 = 0 \<Longrightarrow> y mod 100 = 0"
    by (simp add: mod_eq_0_iff_dvd)
  have "100 dvd y \<Longrightarrow> 4 dvd y"
    by (rule dvd_trans [of 4 100]) simp_all
  then have b: "y mod 100 = 0 \<Longrightarrow> y mod 4 = 0"
    by (simp add: mod_eq_0_iff_dvd)
  have m4: "((y - 1968) mod 4 = 0) = (y mod 4 = 0)"
    by presburger
  have m100: "((y - 1900) mod 100 = 0) = (y mod 100 = 0)"
    by presburger
  have m400: "((y - 1600) mod 400 = 0) = (y mod 400 = 0)"
    by presburger
  have c: "(y - 1968) div 4 = (y - 1969) div 4 + (if y mod 4 = 0 then 1 else 0)"
    using div_step [of 4 "y - 1968"] by (simp add: m4)
  have d: "(y - 1900) div 100 = (y - 1901) div 100 + (if y mod 100 = 0 then 1 else 0)"
    using div_step [of 100 "y - 1900"] by (simp add: m100)
  have e: "(y - 1600) div 400 = (y - 1601) div 400 + (if y mod 400 = 0 then 1 else 0)"
    using div_step [of 400 "y - 1600"] by (simp add: m400)
  show ?thesis
    using a b unfolding DayFromYear_def isLeapYear_def
    by (simp add: c d e)
qed

lemma daysBeforeMonth_next:
  "0 \<le> m \<Longrightarrow> daysBeforeMonth y (nat (m + 1)) = daysBeforeMonth y (nat m) + daysInMonth y m"
  by (simp add: nat_add_distrib)

lemma normaliseDay_day_count:
  "0 \<le> m \<Longrightarrow> m \<le> 11 \<Longrightarrow>
   validDate (normaliseDay y m d) \<and>
   dayNumber (normaliseDay y m d) = DayFromYear y + daysBeforeMonth y (nat m) + d - 1"
proof (induction y m d rule: normaliseDay.induct)
  case (1 y m d)
  show ?case
  proof (cases "d < 1")
    case True
    show ?thesis
    proof (cases "m = 0")
      case m0: True
      have "DayFromYear y = DayFromYear (y - 1) + daysBeforeMonth (y - 1) 12"
        using DayFromYear_next [of "y - 1"] by (simp add: daysBeforeMonth_12)
      also have "daysBeforeMonth (y - 1) 12 = daysBeforeMonth (y - 1) (nat 11) + daysInMonth (y - 1) 11"
        using daysBeforeMonth_next [of 11 "y - 1"] by simp
      finally have e: "DayFromYear y =
          DayFromYear (y - 1) + daysBeforeMonth (y - 1) (nat 11) + daysInMonth (y - 1) 11"
        by simp
      from "1.IH"(1) [OF True m0] True m0 e show ?thesis
        by (subst normaliseDay.simps, subst (2) normaliseDay.simps) simp
    next
      case mpos: False
      with "1.prems" have r: "0 \<le> m - 1" "m - 1 \<le> 11" by simp_all
      have e: "daysBeforeMonth y (nat m) = daysBeforeMonth y (nat (m - 1)) + daysInMonth y (m - 1)"
        using daysBeforeMonth_next [of "m - 1" y] r by simp
      from "1.IH"(2) [OF True mpos r] True mpos e show ?thesis
        by (subst normaliseDay.simps, subst (2) normaliseDay.simps) simp
    qed
  next
    case False
    show ?thesis
    proof (cases "daysInMonth y m < d")
      case over: True
      show ?thesis
      proof (cases "m = 11")
        case m11: True
        have "DayFromYear (y + 1) = DayFromYear y + daysBeforeMonth y 12"
          using DayFromYear_next [of y] by (simp add: daysBeforeMonth_12)
        also have "daysBeforeMonth y 12 = daysBeforeMonth y (nat 11) + daysInMonth y 11"
          using daysBeforeMonth_next [of 11 y] by simp
        finally have e: "DayFromYear (y + 1) =
            DayFromYear y + daysBeforeMonth y (nat 11) + daysInMonth y 11"
          by simp
        from "1.IH"(3) [OF False over m11] False over m11 e show ?thesis
          by (subst normaliseDay.simps, subst (2) normaliseDay.simps) simp
      next
        case mlt: False
        with "1.prems" have r: "0 \<le> m + 1" "m + 1 \<le> 11" by simp_all
        have e: "daysBeforeMonth y (nat (m + 1)) = daysBeforeMonth y (nat m) + daysInMonth y m"
          using daysBeforeMonth_next [of m y] "1.prems" by simp
        from "1.IH"(4) [OF False over mlt r] False over mlt e show ?thesis
          by (subst normaliseDay.simps, subst (2) normaliseDay.simps) simp
      qed
    next
      case fits: False
      with False "1.prems" show ?thesis
        by (subst normaliseDay.simps, subst (2) normaliseDay.simps)
           (simp add: validDate_def dayNumber_def)
    qed
  qed
qed

text \<open>Every day number has a valid date, and the date counts back to the day number.\<close>

lemma dateFromDay_day_count:
  "validDate (dateFromDay n)" "dayNumber (dateFromDay n) = n"
  using normaliseDay_day_count [of 0 1970 "n + 1"]
  by (simp_all add: dateFromDay_def DayFromYear_def)


lemma MakeDay_of_time:
  "MakeDay (YearFromTime t) (MonthFromTime t) dt = Day t - DateFromTime t + dt"
proof -
  let ?c = "dateFromDay (Day t)"
  from dateFromDay_day_count(1) [of "Day t"]
  have m: "0 \<le> civilMonth ?c" "civilMonth ?c \<le> 11"
    by (simp_all add: validDate_def)
  then have "civilMonth ?c div 12 = 0" "civilMonth ?c mod 12 = civilMonth ?c"
    by simp_all
  with dateFromDay_day_count(2) [of "Day t"] show ?thesis
    by (simp add: MakeDay_def Let_def YearFromTime_def MonthFromTime_def DateFromTime_def
        dayNumber_def)
qed

lemma Day_shift: "Day (t + k * msPerDay) = Day t + k"
  by (simp add: Day_def msPerDay_def)

lemma day_and_time: "MakeDate (Day t + k) (TimeWithinDay t) = t + k * msPerDay"
  by (simp add: MakeDate_def Day_def TimeWithinDay_def algebra_simps)

lemma setDate_LocalTime:
  assumes "wallClockExists (LocalTZA today) (LocalTime today + (dt - getDate today) * msPerDay)"
  shows "LocalTime (setDate today dt) = LocalTime today + (dt - getDate today) * msPerDay"
proof -
  let ?t = "LocalTime today"
  have "MakeDate (MakeDay (YearFromTime ?t) (MonthFromTime ?t) dt) (TimeWithinDay ?t) =
      ?t + (dt - getDate today) * msPerDay"
    using day_and_time [of ?t "dt - getDate today"]
    by (simp add: MakeDay_of_time getDate_def algebra_simps)
  with assms show ?thesis
    by (simp add: setDate_def LocalTime_def Let_def wallClockExists_def)
qed

lemma digits10_small: "n < 10 \<Longrightarrow> digits10 n = [''0123456789'' ! n]"
  by (subst digits10.simps) simp

lemma digits10_two: "10 \<le> n \<Longrightarrow> n < 100 \<Longrightarrow>
    digits10 n = [''0123456789'' ! (n div 10), ''0123456789'' ! (n mod 10)]"
  by (subst digits10.simps) (simp add: digits10_small)



lemma padStart_twoDigits:
  assumes "0 \<le> n" and "n < 100"
  shows "padStart 2 (CHR ''0'') (String_of_int n) = twoDigits n"
proof (cases "n < 10")
  case True
  with assms show ?thesis
    by (simp add: String_of_int_def digits10_small padStart_def twoDigits_def)
next
  case False
  with assms show ?thesis
    by (simp add: String_of_int_def digits10_two padStart_def twoDigits_def)
qed

lemma daysInMonth_le_31: "daysInMonth y m \<le> 31"
  by (simp add: daysInMonth_def)

lemma formatDate_digits:
  assumes "0 \<le> getFullYear t"
  shows "formatDate t = digits10 (nat (getFullYear t)) @ ''-'' @ twoDigits (getMonth t + 1)
           @ ''-'' @ twoDigits (getDate t)"
proof -
  let ?c = "dateFromDay (Day (LocalTime t))"
  have v: "validDate ?c"
    by (rule dateFromDay_day_count)
  then have m: "0 \<le> getMonth t + 1" "getMonth t + 1 < 100"
    by (simp_all add: validDate_def getMonth_def MonthFromTime_def)
  from v daysInMonth_le_31 [of "civilYear ?c" "civilMonth ?c"]
  have d: "0 \<le> getDate t" "getDate t < 100"
    by (simp_all add: validDate_def getDate_def DateFromTime_def)
  from assms have y: "String_of_int (getFullYear t) = digits10 (nat (getFullYear t))"
    by (simp add: String_of_int_def)
  show ?thesis
    by (simp add: formatDate_def Let_def padStart_twoDigits [OF m] padStart_twoDigits [OF d] y)
qed

text \<open>The dates of four day numbers, found by walking the months from 1970.\<close>

lemma dateFromDay_samples:
  "dateFromDay 20357 = \<lparr>civilYear = 2025, civilMonth = 8, civilDay = 26\<rparr>"
  "dateFromDay 20327 = \<lparr>civilYear = 2025, civilMonth = 7, civilDay = 27\<rparr>"
  "dateFromDay 15368 = \<lparr>civilYear = 2012, civilMonth = 0, civilDay = 29\<rparr>"
  "dateFromDay 15339 = \<lparr>civilYear = 2011, civilMonth = 11, civilDay = 31\<rparr>"
  by code_simp+

lemma formatDate_of_day:
  assumes "dateFromDay (Day (LocalTime t)) = \<lparr>civilYear = y, civilMonth = m, civilDay = d\<rparr>"
    and "0 \<le> y"
  shows "formatDate t = digits10 (nat y) @ ''-'' @ twoDigits (m + 1) @ ''-'' @ twoDigits d"
proof -
  from assms(1) have "getFullYear t = y" "getMonth t = m" "getDate t = d"
    by (simp_all add: getFullYear_def getMonth_def getDate_def YearFromTime_def
        MonthFromTime_def DateFromTime_def)
  with assms(2) formatDate_digits [of t] show ?thesis
    by simp
qed

lemma local_day_now: "Day (LocalTime now) = 20357"
  by (simp add: now_def LocalTime_def utc_def Day_def msPerDay_def)

lemma wallClock_utc: "wallClockExists utc t"
  by (simp add: wallClockExists_def utc_def)

lemma range_of_local_days:
  assumes "wallClockExists (LocalTZA today) (LocalTime today - 30 * msPerDay)"
  shows "LocalTime (setDate today (getDate today - 30)) = LocalTime today - 30 * msPerDay"
    and "Day (LocalTime (setDate today (getDate today - 30))) = Day (LocalTime today) - 30"
proof -
  from assms
  have "wallClockExists (LocalTZA today)
          (LocalTime today + (getDate today - 30 - getDate today) * msPerDay)"
    by simp
  then have "LocalTime (setDate today (getDate today - 30)) =
      LocalTime today + (getDate today - 30 - getDate today) * msPerDay"
    by (rule setDate_LocalTime)
  then show a: "LocalTime (setDate today (getDate today - 30)) = LocalTime today - 30 * msPerDay"
    by simp
  show "Day (LocalTime (setDate today (getDate today - 30))) = Day (LocalTime today) - 30"
    using Day_shift [of "LocalTime today" "- 30"] by (simp add: a)
qed

lemma range_on_20357:
  assumes "wallClockExists (LocalTZA today) (LocalTime today - 30 * msPerDay)"
    and "Day (LocalTime today) = 20357"
  shows "getDefaultDateRange today = \<lparr>start_date = ''2025-08-27'', end_date = ''2025-09-26''\<rparr>"
proof -
  from range_of_local_days(2) [OF assms(1)] assms(2)
  have s: "Day (LocalTime (setDate today (getDate today - 30))) = 20327"
    by simp
  have e: "formatDate today = ''2025-09-26''"
    using formatDate_of_day [of today 2025 8 26] assms(2)
    by (simp add: dateFromDay_samples twoDigits_def digits10.simps)
  have b: "formatDate (setDate today (getDate today - 30)) = ''2025-08-27''"
    using formatDate_of_day [of "setDate today (getDate today - 30)" 2025 7 27] s
    by (simp add: dateFromDay_samples twoDigits_def digits10.simps)
  from e b show ?thesis
    by (simp add: getDefaultDateRange_def Let_def)
qed

lemma default_range_now:
  "getDefaultDateRange now = \<lparr>start_date = ''2025-08-27'', end_date = ''2025-09-26''\<rparr>"
proof (rule range_on_20357)
  show "wallClockExists (LocalTZA now) (LocalTime now - 30 * msPerDay)"
    by (simp add: now_def wallClock_utc)
  show "Day (LocalTime now) = 20357"
    by (rule local_day_now)
qed




section \<open>The normalised query of the date-taking tools\<close>

lemma appendEntries_acc: "appendEntries ps qp = qp @ appendEntries ps []"
proof (induction ps arbitrary: qp)
  case Nil
  show ?case by simp
next
  case (Cons p ps)
  obtain key v where p: "p = (key, v)" by (cases p)
  show ?case
  proof (cases v)
    case None
    with p Cons.IH [of qp] show ?thesis by simp
  next
    case (Some x)
    with p Cons.IH [of qp] Cons.IH [of "URLSearchParams_append qp key x"]
      Cons.IH [of "URLSearchParams_append [] key x"]
    show ?thesis by (simp add: URLSearchParams_append_def)
  qed
qed

lemma appendEntries_Cons:
  "appendEntries ((key, v) # ps) [] =
     (case v of
        None \<Rightarrow> appendEntries ps []
      | Some x \<Rightarrow> if x \<noteq> Str [] then (key, toString x) # appendEntries ps []
                  else appendEntries ps [])"
proof (cases v)
  case None
  then show ?thesis by simp
next
  case (Some x)
  with appendEntries_acc [of ps "[(key, toString x)]"] show ?thesis
    by (simp add: URLSearchParams_append_def)
qed

lemma map_of_appendEntries:
  "distinct (map fst ps) \<Longrightarrow>
   map_of (appendEntries ps []) k =
     (case map_of ps k of
        Some (Some x) \<Rightarrow> if x \<noteq> Str '''' then Some (toString x) else None
      | _ \<Rightarrow> None)"
proof (induction ps arbitrary: k)
  case Nil
  show ?case by simp
next
  case (Cons p ps)
  obtain key v where p: "p = (key, v)" by (cases p)
  from Cons.prems p have d: "distinct (map fst ps)" and n: "key \<notin> fst ` set ps" by auto
  from n have m: "map_of ps key = None" by (simp add: map_of_eq_None_iff)
  show ?case
    using Cons.IH [OF d, of k] Cons.IH [OF d, of key] m
    by (simp add: p appendEntries_Cons del: appendEntries.simps split: option.splits)
qed

lemma formatDate_nonempty: "formatDate d \<noteq> ''''"
  by (simp add: formatDate_def Let_def)

lemma default_range_nonempty:
  "start_date (getDefaultDateRange today) \<noteq> ''''" "end_date (getDefaultDateRange today) \<noteq> ''''"
  by (simp_all add: getDefaultDateRange_def Let_def formatDate_nonempty)

lemma truthy_Some: "truthy (Some v) \<Longrightarrow> v \<noteq> Str ''''"
  by (auto simp: truthy_def)

lemma orElse_cases:
  "truthy a \<Longrightarrow> orElse a b = a"
  "\<not> truthy a \<Longrightarrow> orElse a b = b"
  by (simp_all add: orElse_def)

lemma keyword_rank_query_date:
  assumes "qp = AndroidKeywordRankHandler_queryParams \<or> qp = AppleKeywordRankHandler_queryParams"
    and "truthy (args ''date'')"
  shows "map_of (appendEntries (qp today args) []) ''date'' = map_option toString (args ''date'')"
    and "map_of (appendEntries (qp today args) []) ''start_date'' = None"
    and "map_of (appendEntries (qp today args) []) ''end_date'' = None"
proof -
  from assms(2) obtain v where v: "args ''date'' = Some v" "v \<noteq> Str ''''"
    by (cases "args ''date''") (auto simp: truthy_def split: jsval.splits)
  have d: "distinct (map fst (qp today args))"
    using assms by (auto simp: AndroidKeywordRankHandler_queryParams_def
        AppleKeywordRankHandler_queryParams_def Let_def)
  show "map_of (appendEntries (qp today args) []) ''date'' = map_option toString (args ''date'')"
    and "map_of (appendEntries (qp today args) []) ''start_date'' = None"
    and "map_of (appendEntries (qp today args) []) ''end_date'' = None"
    unfolding map_of_appendEntries [OF d]
    using assms v by (auto simp: AndroidKeywordRankHandler_queryParams_def
        AppleKeywordRankHandler_queryParams_def Let_def)
qed

lemma keyword_rank_query_range:
  assumes "qp = AndroidKeywordRankHandler_queryParams \<or> qp = AppleKeywordRankHandler_queryParams"
    and "\<not> truthy (args ''date'')"
  shows "map_of (appendEntries (qp today args) []) ''date'' = None"
    and "map_of (appendEntries (qp today args) []) ''start_date'' =
           map_option toString
             (orElse (args ''start_date'') (Some (Str (start_date (getDefaultDateRange today)))))"
    and "map_of (appendEntries (qp today args) []) ''end_date'' =
           map_option toString
             (orElse (args ''end_date'') (Some (Str (end_date (getDefaultDateRange today)))))"
proof -
  have d: "distinct (map fst (qp today args))"
    using assms by (auto simp: AndroidKeywordRankHandler_queryParams_def
        AppleKeywordRankHandler_queryParams_def Let_def)
  have s: "\<exists>v. orElse (args ''start_date'') (Some (Str (start_date (getDefaultDateRange today)))) = Some v
             \<and> v \<noteq> Str ''''"
    by (cases "truthy (args ''start_date'')")
       (auto simp: orElse_cases default_range_nonempty truthy_def split: option.splits jsval.splits)
  have e: "\<exists>v. orElse (args ''end_date'') (Some (Str (end_date (getDefaultDateRange today)))) = Some v
             \<and> v \<noteq> Str ''''"
    by (cases "truthy (args ''end_date'')")
       (auto simp: orElse_cases default_range_nonempty truthy_def split: option.splits jsval.splits)
  show "map_of (appendEntries (qp today args) []) ''date'' = None"
    unfolding map_of_appendEntries [OF d]
    using assms by (auto simp: AndroidKeywordRankHandler_queryParams_def
        AppleKeywordRankHandler_queryParams_def Let_def)
  show "map_of (appendEntries (qp today args) []) ''start_date'' =
           map_option toString
             (orElse (args ''start_date'') (Some (Str (start_date (getDefaultDateRange today)))))"
    unfolding map_of_appendEntries [OF d]
    using assms s by (auto simp: AndroidKeywordRankHandler_queryParams_def
        AppleKeywordRankHandler_queryParams_def Let_def)
  show "map_of (appendEntries (qp today args) []) ''end_date'' =
           map_option toString
             (orElse (args ''end_date'') (Some (Str (end_date (getDefaultDateRange today)))))"
    unfolding map_of_appendEntries [OF d]
    using assms e by (auto simp: AndroidKeywordRankHandler_queryParams_def
        AppleKeywordRankHandler_queryParams_def Let_def)
qed

text \<open>
  The normalised query of a handler is the list of pairs that \<open>buildQueryString\<close>
  appends to its \<open>URLSearchParams\<close>, \<open>appendEntries (queryParams) []\<close>; the query
  carries a parameter when \<open>map_of\<close> finds it there.

  Claim C4, as amended. The keyword-rank handlers test \<open>if (date)\<close>. Whenever
  \<open>date\<close> is truthy (present and not the empty string), the query carries \<open>date\<close>
  with the supplied value and neither \<open>start_date\<close> nor \<open>end_date\<close>, whatever was
  supplied for them; whenever \<open>date\<close> is absent or the empty string, the query carries
  no \<open>date\<close>, and \<open>start_date\<close> and \<open>end_date\<close> with the supplied value where it is
  truthy and the 30-day default otherwise.
\<close>

theorem keyword_rank_date_precedence:
  assumes "qp = AndroidKeywordRankHandler_queryParams \<or> qp = AppleKeywordRankHandler_queryParams"
  shows "(truthy (args ''date'') \<longrightarrow>
            map_of (appendEntries (qp today args) []) ''date'' = map_option toString (args ''date'') \<and>
            map_of (appendEntries (qp today args) []) ''start_date'' = None \<and>
            map_of (appendEntries (qp today args) []) ''end_date'' = None) \<and>
         (\<not> truthy (args ''date'') \<longrightarrow>
            map_of (appendEntries (qp today args) []) ''date'' = None \<and>
            map_of (appendEntries (qp today args) []) ''start_date'' =
              map_option toString
                (orElse (args ''start_date'') (Some (Str (start_date (getDefaultDateRange today))))) \<and>
            map_of (appendEntries (qp today args) []) ''end_date'' =
              map_option toString
                (orElse (args ''end_date'') (Some (Str (end_date (getDefaultDateRange today))))))"
  using keyword_rank_query_date [OF assms] keyword_rank_query_range [OF assms]
  by blast

theorem keyword_rank_date_precedence_witness:
  "truthy ([''app'' \<mapsto> Str ''com.spotify.music'', ''keywords'' \<mapsto> Str ''music'',
            ''date'' \<mapsto> Str ''2025-01-01'', ''start_date'' \<mapsto> Str ''2025-01-01'',
            ''end_date'' \<mapsto> Str ''2025-01-31''] ''date'') \<and>
   map_of (appendEntries (AndroidKeywordRankHandler_queryParams now
       [''app'' \<mapsto> Str ''com.spotify.music'', ''keywords'' \<mapsto> Str ''music'',
        ''date'' \<mapsto> Str ''2025-01-01'', ''start_date'' \<mapsto> Str ''2025-01-01'',
        ''end_date'' \<mapsto> Str ''2025-01-31'']) []) ''date'' = Some ''2025-01-01'' \<and>
   map_of (appendEntries (AndroidKeywordRankHandler_queryParams now
       [''app'' \<mapsto> Str ''com.spotify.music'', ''keywords'' \<mapsto> Str ''music'',
        ''date'' \<mapsto> Str ''2025-01-01'', ''start_date'' \<mapsto> Str ''2025-01-01'',
        ''end_date'' \<mapsto> Str ''2025-01-31'']) []) ''start_date'' = None \<and>
   map_of (appendEntries (AndroidKeywordRankHandler_queryParams now
       [''app'' \<mapsto> Str ''com.spotify.music'', ''keywords'' \<mapsto> Str ''music'',
        ''date'' \<mapsto> Str ''2025-01-01'', ''start_date'' \<mapsto> Str ''2025-01-01'',
        ''end_date'' \<mapsto> Str ''2025-01-31'']) []) ''end_date'' = None \<and>
   \<not> truthy ([''app'' \<mapsto> Str ''284882215'', ''keywords'' \<mapsto> Str ''music'',
              ''end_date'' \<mapsto> Str ''2025-01-31''] ''date'') \<and>
   map_of (appendEntries (AppleKeywordRankHandler_queryParams now
       [''app'' \<mapsto> Str ''284882215'', ''keywords'' \<mapsto> Str ''music'',
        ''end_date'' \<mapsto> Str ''2025-01-31'']) []) ''date'' = None \<and>
   map_of (appendEntries (AppleKeywordRankHandler_queryParams now
       [''app'' \<mapsto> Str ''284882215'', ''keywords'' \<mapsto> Str ''music'',
        ''end_date'' \<mapsto> Str ''2025-01-31'']) []) ''start_date'' = Some ''2025-08-27'' \<and>
   map_of (appendEntries (AppleKeywordRankHandler_queryParams now
       [''app'' \<mapsto> Str ''284882215'', ''keywords'' \<mapsto> Str ''music'',
        ''end_date'' \<mapsto> Str ''2025-01-31'']) []) ''end_date'' = Some ''2025-01-31''"
proof -
  have t: "truthy ([''app'' \<mapsto> Str ''com.spotify.music'', ''keywords'' \<mapsto> Str ''music'',
            ''date'' \<mapsto> Str ''2025-01-01'', ''start_date'' \<mapsto> Str ''2025-01-01'',
            ''end_date'' \<mapsto> Str ''2025-01-31''] ''date'')"
    by (simp add: truthy_def)
  have f: "\<not> truthy ([''app'' \<mapsto> Str ''284882215'', ''keywords'' \<mapsto> Str ''music'',
              ''end_date'' \<mapsto> Str ''2025-01-31''] ''date'')"
    by (simp add: truthy_def)
  show ?thesis
    using t f
      keyword_rank_date_precedence [of AndroidKeywordRankHandler_queryParams
        "[''app'' \<mapsto> Str ''com.spotify.music'', ''keywords'' \<mapsto> Str ''music'',
          ''date'' \<mapsto> Str ''2025-01-01'', ''start_date'' \<mapsto> Str ''2025-01-01'',
          ''end_date'' \<mapsto> Str ''2025-01-31'']" now]
      keyword_rank_date_precedence [of AppleKeywordRankHandler_queryParams
        "[''app'' \<mapsto> Str ''284882215'', ''keywords'' \<mapsto> Str ''music'',
          ''end_date'' \<mapsto> Str ''2025-01-31'']" now]
    by (simp add: toString_def orElse_def truthy_def default_range_now)
qed

text \<open>
  Claim C4 as the spec states it speaks of \<open>date\<close> being present. With \<open>date\<close>
  present as the empty string, the query of the Android keyword-rank tool has no
  \<open>date\<close> and carries the default range, as the URL of the request shows.
\<close>

theorem keyword_rank_empty_date_counterexample:
  "[''app'' \<mapsto> Str ''com.spotify.music'', ''keywords'' \<mapsto> Str ''music'',
    ''date'' \<mapsto> Str ''''] ''date'' \<noteq> None \<and>
   appendEntries (AndroidKeywordRankHandler_queryParams now
       [''app'' \<mapsto> Str ''com.spotify.music'', ''keywords'' \<mapsto> Str ''music'',
        ''date'' \<mapsto> Str '''']) [] =
     [(''app'', ''com.spotify.music''), (''keywords'', ''music''), (''country'', ''in''),
      (''language'', ''en''), (''start_date'', ''2025-08-27''), (''end_date'', ''2025-09-26'')] \<and>
   map url (fst (dispatch ''appvector_android_keyword_rank'' tokenConfig upstream now
       [''app'' \<mapsto> Str ''com.spotify.music'', ''keywords'' \<mapsto> Str ''music'',
        ''date'' \<mapsto> Str ''''])) =
     [''https://appvector.io/external-apis/api/ranks/android/?app=com.spotify.music&keywords=music&country=in&language=en&start_date=2025-08-27&end_date=2025-09-26'']"
  by (simp add: AndroidKeywordRankHandler_queryParams_def default_range_now truthy_def
      withDefault_def orElse_def URLSearchParams_append_def toString_def
      fst_dispatch switchTool_cases AndroidKeywordRankHandler_handle_def fst_wrapResult
      fetchApi_calls buildQueryString_def URLSearchParams_toString_def urlencode_def
      encodeByte_def formSafe_def tokenConfig_def API_URL_def)

lemma dateRangeTable_cases:
  assumes "(name, qp) \<in> set dateRangeTable"
  obtains
      "name = ''appvector_apple_metadata''" "qp = AppleMetadataHandler_queryParams"
    | "name = ''appvector_apple_rank''" "qp = AppleRankHandler_queryParams"
    | "name = ''appvector_android_metadata''" "qp = AndroidMetadataHandler_queryParams"
    | "name = ''appvector_android_rank''" "qp = AndroidRankHandler_queryParams"
    | "name = ''appvector_apple_reviews''" "qp = AppleReviewsHandler_queryParams"
    | "name = ''appvector_android_reviews''" "qp = AndroidReviewsHandler_queryParams"
    | "name = ''appvector_apple_keyword_rank''" "qp = AppleKeywordRankHandler_queryParams"
    | "name = ''appvector_android_keyword_rank''" "qp = AndroidKeywordRankHandler_queryParams"
  using assms unfolding dateRangeTable_def by fastforce

lemmas queryParams_defs =
  AppleMetadataHandler_queryParams_def AppleRankHandler_queryParams_def
  AndroidMetadataHandler_queryParams_def AndroidRankHandler_queryParams_def
  AppleReviewsHandler_queryParams_def AndroidReviewsHandler_queryParams_def
  AppleKeywordRankHandler_queryParams_def AndroidKeywordRankHandler_queryParams_def

lemma empty_start_date_queryParams:
  assumes "(name, qp) \<in> set dateRangeTable"
  shows "qp today (args(''start_date'' \<mapsto> Str '''')) = qp today (args(''start_date'' := None))"
  using assms
  by (cases rule: dateRangeTable_cases)
     (simp_all add: queryParams_defs Let_def orElse_def truthy_def)

lemma empty_end_date_queryParams:
  assumes "(name, qp) \<in> set dateRangeTable"
  shows "qp today (args(''end_date'' \<mapsto> Str '''')) = qp today (args(''end_date'' := None))"
  using assms
  by (cases rule: dateRangeTable_cases)
     (simp_all add: queryParams_defs Let_def orElse_def truthy_def)

text \<open>
  What a handler of the table does with the bag: it reads \<open>app\<close> and \<open>keywords\<close>
  for its checks, and the rest through its \<open>queryParams\<close>.
\<close>

lemma switchTool_by_queryParams:
  assumes "(name, qp) \<in> set dateRangeTable"
    and "args' ''app'' = args ''app''" and "args' ''keywords'' = args ''keywords''"
    and "qp today args' = qp today args"
  shows "switchTool name cfg net today args' = switchTool name cfg net today args"
  using assms(1)
proof (cases rule: dateRangeTable_cases)
  case 1
  with assms(2-4) show ?thesis by (simp add: switchTool_cases AppleMetadataHandler_handle_def)
next
  case 2
  with assms(2-4) show ?thesis by (simp add: switchTool_cases AppleRankHandler_handle_def)
next
  case 3
  with assms(2-4) show ?thesis by (simp add: switchTool_cases AndroidMetadataHandler_handle_def)
next
  case 4
  with assms(2-4) show ?thesis by (simp add: switchTool_cases AndroidRankHandler_handle_def)
next
  case 5
  with assms(2-4) show ?thesis by (simp add: switchTool_cases AppleReviewsHandler_handle_def)
next
  case 6
  with assms(2-4) show ?thesis by (simp add: switchTool_cases AndroidReviewsHandler_handle_def)
next
  case 7
  with assms(2-4) show ?thesis by (simp add: switchTool_cases AppleKeywordRankHandler_handle_def)
next
  case 8
  with assms(2-4) show ?thesis by (simp add: switchTool_cases AndroidKeywordRankHandler_handle_def)
qed

lemma range_in_play_start:
  assumes "(name, qp) \<in> set dateRangeTable"
    and "name \<in> set keywordRankTools \<longrightarrow> \<not> truthy (args ''date'')"
    and "\<not> truthy (args ''start_date'')"
  shows "map_of (appendEntries (qp today args) []) ''start_date'' =
           Some (start_date (getDefaultDateRange today))"
proof -
  have d: "distinct (map fst (qp today args))"
    using assms(1) by (cases rule: dateRangeTable_cases) (simp_all add: queryParams_defs Let_def)
  have n: "Str (start_date (getDefaultDateRange today)) \<noteq> Str ''''"
    by (simp add: default_range_nonempty)
  show ?thesis
    unfolding map_of_appendEntries [OF d]
    using assms(1)
    by (cases rule: dateRangeTable_cases)
       (use assms(2,3) n in \<open>simp_all add: queryParams_defs Let_def orElse_def toString_def
          keywordRankTools_def\<close>)
qed

lemma range_in_play_end:
  assumes "(name, qp) \<in> set dateRangeTable"
    and "name \<in> set keywordRankTools \<longrightarrow> \<not> truthy (args ''date'')"
    and "\<not> truthy (args ''end_date'')"
  shows "map_of (appendEntries (qp today args) []) ''end_date'' =
           Some (end_date (getDefaultDateRange today))"
proof -
  have d: "distinct (map fst (qp today args))"
    using assms(1) by (cases rule: dateRangeTable_cases) (simp_all add: queryParams_defs Let_def)
  have n: "Str (end_date (getDefaultDateRange today)) \<noteq> Str ''''"
    by (simp add: default_range_nonempty)
  show ?thesis
    unfolding map_of_appendEntries [OF d]
    using assms(1)
    by (cases rule: dateRangeTable_cases)
       (use assms(2,3) n in \<open>simp_all add: queryParams_defs Let_def orElse_def toString_def
          keywordRankTools_def\<close>)
qed

text \<open>
  Claim C10. For each of the eight handlers that take a date range, a bag with
  \<open>start_date\<close> (or \<open>end_date\<close>) the empty string builds the same \<open>queryParams\<close>
  as the bag without it, and the dispatcher answers both calls alike, requests
  included. Where the range is sent at all (always, but for the keyword-rank tools called
  with a truthy \<open>date\<close>, which send no range), the query then carries \<open>start_date\<close>
  (or \<open>end_date\<close>) with the computed 30-day default.
\<close>

theorem empty_date_bound_same_as_missing:
  assumes "(name, qp) \<in> set dateRangeTable"
  shows "qp today (args(''start_date'' \<mapsto> Str '''')) = qp today (args(''start_date'' := None)) \<and>
         qp today (args(''end_date'' \<mapsto> Str '''')) = qp today (args(''end_date'' := None)) \<and>
         dispatch name cfg net today (args(''start_date'' \<mapsto> Str '''')) =
           dispatch name cfg net today (args(''start_date'' := None)) \<and>
         dispatch name cfg net today (args(''end_date'' \<mapsto> Str '''')) =
           dispatch name cfg net today (args(''end_date'' := None)) \<and>
         ((name \<in> set keywordRankTools \<longrightarrow> \<not> truthy (args ''date'')) \<longrightarrow>
            map_of (appendEntries (qp today (args(''start_date'' \<mapsto> Str ''''))) []) ''start_date'' =
              Some (start_date (getDefaultDateRange today)) \<and>
            map_of (appendEntries (qp today (args(''end_date'' \<mapsto> Str ''''))) []) ''end_date'' =
              Some (end_date (getDefaultDateRange today)))"
proof -
  have s: "qp today (args(''start_date'' \<mapsto> Str '''')) = qp today (args(''start_date'' := None))"
    using assms by (rule empty_start_date_queryParams)
  have e: "qp today (args(''end_date'' \<mapsto> Str '''')) = qp today (args(''end_date'' := None))"
    using assms by (rule empty_end_date_queryParams)
  have "switchTool name cfg net today (args(''start_date'' \<mapsto> Str '''')) =
        switchTool name cfg net today (args(''start_date'' := None))"
    using assms _ _ s by (rule switchTool_by_queryParams) simp_all
  then have ds: "dispatch name cfg net today (args(''start_date'' \<mapsto> Str '''')) =
      dispatch name cfg net today (args(''start_date'' := None))"
    by (simp add: dispatch_catch)
  have "switchTool name cfg net today (args(''end_date'' \<mapsto> Str '''')) =
        switchTool name cfg net today (args(''end_date'' := None))"
    using assms _ _ e by (rule switchTool_by_queryParams) simp_all
  then have de: "dispatch name cfg net today (args(''end_date'' \<mapsto> Str '''')) =
      dispatch name cfg net today (args(''end_date'' := None))"
    by (simp add: dispatch_catch)
  have rs: "map_of (appendEntries (qp today (args(''start_date'' \<mapsto> Str ''''))) []) ''start_date'' =
              Some (start_date (getDefaultDateRange today))"
    if "name \<in> set keywordRankTools \<longrightarrow> \<not> truthy (args ''date'')"
    using assms by (rule range_in_play_start) (use that in \<open>simp_all add: truthy_def\<close>)
  have re: "map_of (appendEntries (qp today (args(''end_date'' \<mapsto> Str ''''))) []) ''end_date'' =
              Some (end_date (getDefaultDateRange today))"
    if "name \<in> set keywordRankTools \<longrightarrow> \<not> truthy (args ''date'')"
    using assms by (rule range_in_play_end) (use that in \<open>simp_all add: truthy_def\<close>)
  from s e ds de rs re show ?thesis by blast
qed

theorem empty_date_bound_same_as_missing_witness:
  "(''appvector_android_reviews'', AndroidReviewsHandler_queryParams) \<in> set dateRangeTable \<and>
   dispatch ''appvector_android_reviews'' tokenConfig upstream now
       [''app'' \<mapsto> Str ''com.facebook.katana'', ''start_date'' \<mapsto> Str ''''] =
     dispatch ''appvector_android_reviews'' tokenConfig upstream now
       ([''app'' \<mapsto> Str ''com.facebook.katana''](''start_date'' := None)) \<and>
   map_of (appendEntries (AndroidReviewsHandler_queryParams now
       [''app'' \<mapsto> Str ''com.facebook.katana'', ''start_date'' \<mapsto> Str '''']) []) ''start_date'' =
     Some ''2025-08-27'' \<and>
   map_of (appendEntries (AndroidReviewsHandler_queryParams now
       [''app'' \<mapsto> Str ''com.facebook.katana'', ''end_date'' \<mapsto> Str '''']) []) ''end_date'' =
     Some ''2025-09-26''"
proof -
  have h: "(''appvector_android_reviews'', AndroidReviewsHandler_queryParams) \<in> set dateRangeTable"
    by (simp add: dateRangeTable_def)
  have k: "''appvector_android_reviews'' \<notin> set keywordRankTools"
    by (simp add: keywordRankTools_def)
  note w = empty_date_bound_same_as_missing
    [OF h, of now "[''app'' \<mapsto> Str ''com.facebook.katana'']" tokenConfig upstream]
  from w have a: "dispatch ''appvector_android_reviews'' tokenConfig upstream now
       [''app'' \<mapsto> Str ''com.facebook.katana'', ''start_date'' \<mapsto> Str []] =
     dispatch ''appvector_android_reviews'' tokenConfig upstream now
       ([''app'' \<mapsto> Str ''com.facebook.katana''](''start_date'' := None))"
    by blast
  from w k have b: "map_of (appendEntries (AndroidReviewsHandler_queryParams now
       [''app'' \<mapsto> Str ''com.facebook.katana'', ''start_date'' \<mapsto> Str []]) []) ''start_date'' =
     Some (start_date (getDefaultDateRange now))"
    by blast
  from w k have c: "map_of (appendEntries (AndroidReviewsHandler_queryParams now
       [''app'' \<mapsto> Str ''com.facebook.katana'', ''end_date'' \<mapsto> Str []]) []) ''end_date'' =
     Some (end_date (getDefaultDateRange now))"
    by blast
  from h a b c show ?thesis
    by (simp only: default_range_now DateRange.simps)
qed

section \<open>Query construction\<close>























end
